theory Spec2Isabelle
  imports Complex_Main "HOL-Library.Multiset" "HOL-Library.Sublist" "HOL-Library.Log_Nat"
begin

section \<open>Data model\<close>

text \<open>
  The trip-planning frontend keeps expenses as plain JavaScript objects. A monetary
  amount is a JavaScript number; the spec's data model calls it a decimal amount, and
  it is modelled as an exact rational (\<open>NaN\<close> and the infinities are outside the
  model). An optional field (\<open>undefined\<close>, \<open>null\<close>) is an \<open>option\<close>.
\<close>

text \<open>\<open>Money\<close>: \<open>{ value, currency }\<close>.\<close>

record money =
  money_value :: rat
  money_currency :: string

text \<open>
  The category tags are the keys of \<open>EXPENSE_CATEGORY_DATA\<close>
  (ExpensesPanel.tsx, lines 49-102). Rendering a card dereferences
  \<open>EXPENSE_CATEGORY_DATA[exp.category || 'other'].label\<close>, so the panel only renders
  expenses whose tag is one of these thirteen keys.
\<close>

datatype category =
    Lodging | Transportation | Food | Entertainment | Shopping | Activities
  | Healthcare | Communication | Insurance | Visa_fees | Souvenirs | Tips | Other

fun category_key :: "category \<Rightarrow> string" where
  "category_key Lodging = ''lodging''"
| "category_key Transportation = ''transportation''"
| "category_key Food = ''food''"
| "category_key Entertainment = ''entertainment''"
| "category_key Shopping = ''shopping''"
| "category_key Activities = ''activities''"
| "category_key Healthcare = ''healthcare''"
| "category_key Communication = ''communication''"
| "category_key Insurance = ''insurance''"
| "category_key Visa_fees = ''visa_fees''"
| "category_key Souvenirs = ''souvenirs''"
| "category_key Tips = ''tips''"
| "category_key Other = ''other''"

text \<open>
  \<open>Expense\<close> (types/trips.ts is not among the sources; the fields are the ones the
  panel, the flight form and the data-access module read and write).
  \<open>exp_convertedCost\<close> is the field \<open>convertExpenses\<close> adds for display.
\<close>

record expense =
  exp_id :: string
  exp_trip :: string
  exp_name :: string
  exp_cost :: "money option"
  exp_occurredOn :: "string option"
  exp_notes :: "string option"
  exp_category :: "category option"
  exp_attachmentReferences :: "string list option"
  exp_convertedCost :: "money option"

record attachment =
  att_id :: string
  att_name :: string
  att_file :: string

section \<open>Sorting the expense list (ExpensesPanel.tsx, lines 271-290)\<close>

text \<open>
  \<open>Array.prototype.sort\<close> with a comparator is a stable sort: an element stays
  before a later one unless the comparator puts it strictly after. It is modelled as
  the stable insertion sort: an element is placed before the first later element it
  does not compare greater than. For a comparator that is a consistent ordering, as
  the difference of two numeric keys is, every stable sort returns this list.
\<close>

fun insertBy :: "('a \<Rightarrow> 'a \<Rightarrow> rat) \<Rightarrow> 'a \<Rightarrow> 'a list \<Rightarrow> 'a list" where
  "insertBy cmp x [] = [x]"
| "insertBy cmp x (y # ys) = (if cmp x y \<le> 0 then x # y # ys else y # insertBy cmp x ys)"

definition js_sort :: "('a \<Rightarrow> 'a \<Rightarrow> rat) \<Rightarrow> 'a list \<Rightarrow> 'a list" where
  "js_sort cmp xs = foldr (insertBy cmp) xs []"

datatype sort_column = Date | Category | Amount

datatype sort_direction = Asc | Desc

text \<open>
  The JavaScript built-ins the comparator calls are parameters:
  \<open>localeCompare a b\<close> is \<open>a.localeCompare(b)\<close> and \<open>getTime s\<close> is
  \<open>new Date(s).getTime()\<close>.
\<close>

text \<open>\<open>a.occurredOn ? new Date(a.occurredOn).getTime() : 0\<close>\<close>

definition dateOf :: "(string \<Rightarrow> rat) \<Rightarrow> expense \<Rightarrow> rat" where
  "dateOf getTime a =
     (case exp_occurredOn a of
        None \<Rightarrow> 0
      | Some d \<Rightarrow> if d \<noteq> [] then getTime d else 0)"

text \<open>\<open>a.category || ''\<close>\<close>

definition catOf :: "expense \<Rightarrow> string" where
  "catOf a = (case exp_category a of None \<Rightarrow> [] | Some c \<Rightarrow> category_key c)"

text \<open>\<open>a.convertedCost?.value || 0\<close>\<close>

definition amountOf :: "expense \<Rightarrow> rat" where
  "amountOf a =
     (case exp_convertedCost a of
        None \<Rightarrow> 0
      | Some m \<Rightarrow> if money_value m \<noteq> 0 then money_value m else 0)"

definition compareExpenses ::
  "(string \<Rightarrow> string \<Rightarrow> rat) \<Rightarrow> (string \<Rightarrow> rat) \<Rightarrow> sort_column option \<Rightarrow> sort_direction
     \<Rightarrow> expense \<Rightarrow> expense \<Rightarrow> rat" where
  "compareExpenses localeCompare getTime sortBy sortDirection a b =
     (case sortBy of
        None \<Rightarrow> 0
      | Some column \<Rightarrow>
          (let comparison =
             (case column of
                Date \<Rightarrow> dateOf getTime a - dateOf getTime b
              | Category \<Rightarrow> localeCompare (catOf a) (catOf b)
              | Amount \<Rightarrow> amountOf a - amountOf b)
           in if sortDirection = Asc then comparison else - comparison))"

definition sortedExpenses ::
  "(string \<Rightarrow> string \<Rightarrow> rat) \<Rightarrow> (string \<Rightarrow> rat) \<Rightarrow> sort_column option \<Rightarrow> sort_direction
     \<Rightarrow> expense list \<Rightarrow> expense list" where
  "sortedExpenses localeCompare getTime sortBy sortDirection expenses =
     js_sort (compareExpenses localeCompare getTime sortBy sortDirection) expenses"

section \<open>Statistics (ExpensesPanel.tsx, lines 300-319)\<close>

text \<open>
  The total and the category totals with the additions taken exactly, as sums of
  decimal amounts; the next two sections give them with the additions of the code.
\<close>

text \<open>\<open>sortedExpenses.reduce((sum, exp) => sum + (exp.convertedCost?.value || 0), 0)\<close>\<close>

definition totalExpenses :: "expense list \<Rightarrow> rat" where
  "totalExpenses sorted_expenses = foldl (\<lambda>total e. total + amountOf e) 0 sorted_expenses"

text \<open>
  \<open>categoryTotals\<close> is a JavaScript object used as a dictionary from category tag to
  number. Its own string keys are enumerated in insertion order, which
  \<open>Object.entries\<close> exposes, so it is an association list: assigning to a key that
  is present replaces the value in place, assigning to a new key appends an entry.
\<close>

fun setProperty :: "'k \<Rightarrow> 'v \<Rightarrow> ('k \<times> 'v) list \<Rightarrow> ('k \<times> 'v) list" where
  "setProperty k v [] = [(k, v)]"
| "setProperty k v (p # ps) = (if fst p = k then (k, v) # ps else p # setProperty k v ps)"

text \<open>\<open>acc[cat] || 0\<close>\<close>

definition getOr0 :: "('k \<times> rat) list \<Rightarrow> 'k \<Rightarrow> rat" where
  "getOr0 acc k = (case map_of acc k of None \<Rightarrow> 0 | Some v \<Rightarrow> if v \<noteq> 0 then v else 0)"

text \<open>\<open>exp.category || 'other'\<close>\<close>

definition categoryOrOther :: "expense \<Rightarrow> category" where
  "categoryOrOther e = (case exp_category e of None \<Rightarrow> Other | Some c \<Rightarrow> c)"

definition categoryTotals :: "expense list \<Rightarrow> (category \<times> rat) list" where
  "categoryTotals sorted_expenses =
     foldl (\<lambda>acc e.
              let cat = categoryOrOther e
              in setProperty cat (getOr0 acc cat + amountOf e) acc)
       [] sorted_expenses"

section \<open>Number arithmetic\<close>

text \<open>
  The statistics add JavaScript numbers, which are IEEE 754 double-precision values: a
  finite number is the rational it denotes, and \<open>x + y\<close> is the exact sum rounded to
  the nearest double, ties to the even significand. \<open>js_round\<close> is that rounding:
  a double is an integer significand below \<open>2^53\<close> times a power of two whose
  exponent is at least \<open>-1074\<close>. A decimal literal such as \<open>0.1\<close> denotes
  \<open>js_round (1 / 10)\<close>. Sums beyond the largest double, which JavaScript gives as
  \<open>Infinity\<close>, are outside the model.
\<close>

definition pow2 :: "int \<Rightarrow> rat" where
  "pow2 k = (if 0 \<le> k then 2 ^ nat k else 1 / 2 ^ nat (- k))"

text \<open>For a positive \<open>a\<close>, the \<open>k\<close> with \<open>2^k \<le> a < 2^(k + 1)\<close>.\<close>

definition floor_log2 :: "rat \<Rightarrow> int" where
  "floor_log2 a =
     (let k = bitlen (fst (quotient_of a)) - bitlen (snd (quotient_of a))
      in if pow2 k \<le> a then k else k - 1)"

definition round_half_even :: "rat \<Rightarrow> int" where
  "round_half_even r =
     (let n = \<lfloor>r\<rfloor>; d = r - of_int n
      in if d < 1 / 2 then n else if 1 / 2 < d then n + 1 else if even n then n else n + 1)"

definition js_round :: "rat \<Rightarrow> rat" where
  "js_round x =
     (if x = 0 then 0
      else let e = max (floor_log2 \<bar>x\<bar> - 52) (- 1074)
           in sgn x * of_int (round_half_even (\<bar>x\<bar> / pow2 e)) * pow2 e)"

definition js_add :: "rat \<Rightarrow> rat \<Rightarrow> rat" where
  "js_add x y = js_round (x + y)"

section \<open>Statistics in number arithmetic (ExpensesPanel.tsx, lines 300-319)\<close>

text \<open>
  The folds of lines 301-319 with the addition they use as the parameter \<open>add\<close>;
  \<open>js_add\<close> is the addition of the code. \<open>totalExpenses\<close> and \<open>categoryTotals\<close>
  above are the same folds with the exact addition.
\<close>

definition totalExpensesIn :: "(rat \<Rightarrow> rat \<Rightarrow> rat) \<Rightarrow> expense list \<Rightarrow> rat" where
  "totalExpensesIn add sorted_expenses =
     foldl (\<lambda>total e. add total (amountOf e)) 0 sorted_expenses"

definition categoryTotalsIn ::
  "(rat \<Rightarrow> rat \<Rightarrow> rat) \<Rightarrow> expense list \<Rightarrow> (category \<times> rat) list" where
  "categoryTotalsIn add sorted_expenses =
     foldl (\<lambda>acc e.
              let cat = categoryOrOther e
              in setProperty cat (add (getOr0 acc cat) (amountOf e)) acc)
       [] sorted_expenses"

text \<open>
  \<open>Object.entries(categoryTotals).sort(([, a], [, b]) => b - a)\<close>. The sort uses the
  sign of \<open>b - a\<close> only, and the difference of two finite doubles has the sign of
  their exact difference.
\<close>

definition sortedCategoriesIn ::
  "(rat \<Rightarrow> rat \<Rightarrow> rat) \<Rightarrow> expense list \<Rightarrow> (category \<times> rat) list" where
  "sortedCategoriesIn add sorted_expenses =
     js_sort (\<lambda>(ca, a) (cb, b). b - a) (categoryTotalsIn add sorted_expenses)"

section \<open>The spec's reading of the category aggregation\<close>

text \<open>
  The order in which the distinct elements of a list are first encountered: the order
  of the groups of section 4.1, step 5, of the spec before they are sorted.
\<close>

fun encounterOrder :: "'a list \<Rightarrow> 'a list" where
  "encounterOrder [] = []"
| "encounterOrder (x # xs) = x # filter (\<lambda>y. y \<noteq> x) (encounterOrder xs)"

section \<open>Collaborators, payloads and notifications\<close>

text \<open>
  A payload handed to the backend SDK is a JavaScript object literal: its keys in the
  order written, each with a JSON value. A key written with the value \<open>undefined\<close>
  is present in the literal (and dropped when the request is serialised).
\<close>

datatype json =
    JUndefined
  | JStr string
  | JNum rat
  | JArr "json list"
  | JObj "(string \<times> json) list"

type_synonym payload = "(string \<times> json) list"

text \<open>Every key that occurs in a JSON value, at any depth.\<close>

fun allKeys :: "json \<Rightarrow> string list" where
  "allKeys (JObj kvs) = concat (map (\<lambda>(k, v). k # allKeys v) kvs)"
| "allKeys (JArr vs) = concat (map allKeys vs)"
| "allKeys JUndefined = []"
| "allKeys (JStr s) = []"
| "allKeys (JNum n) = []"

text \<open>
  A user-visible text: \<open>T key default params\<close> is \<open>t(key, default, params)\<close> of the
  localisation framework, \<open>Plain s\<close> a string literal.
\<close>

datatype message = T string string "(string \<times> string) list" | Plain string

text \<open>What an awaited call rejects with, or what a failing property access throws.\<close>

datatype js_error = Rejected string | TypeError string

type_synonym upload_file = string

text \<open>
  The calls the handlers make on their collaborators, in the order they are made: the
  expense repository (unnamed/part_000: \<open>createExpense\<close>, \<open>updateExpense\<close> and
  \<open>deleteExpense\<close> pass their arguments to the collection unchanged), the attachment
  and transportation repositories, the query cache, the notifications and the modals.
\<close>

datatype event =
    UploadAttachments string "upload_file list"
  | CreateExpense payload
  | UpdateExpense string payload
  | DeleteExpense string
  | UpdateTransportation string payload
  | CreateTransportationEntry payload
  | InvalidateQueries string string
  | ShowErrorNotification js_error message message
  | ShowDeleteNotification message message
  | OpenConfirmModal message message
  | OnSuccess

text \<open>
  The outcome of each awaited call is a parameter: \<open>Inl\<close> is a rejected promise,
  \<open>Inr\<close> the resolved value.
\<close>

record api =
  uploadAttachments :: "string \<Rightarrow> upload_file list \<Rightarrow> js_error + attachment list"
  createExpense :: "payload \<Rightarrow> js_error + expense"
  updateExpense :: "string \<Rightarrow> payload \<Rightarrow> js_error + expense"
  deleteExpense :: "string \<Rightarrow> js_error + unit"
  updateTransportation :: "string \<Rightarrow> payload \<Rightarrow> js_error + unit"
  createTransportationEntry :: "payload \<Rightarrow> js_error + unit"

text \<open>
  Helpers that are not among the sources, as parameters: \<open>String.prototype.trim\<close>,
  \<open>fakeAsUtcString\<close> of lib/time.ts and the date format \<open>dayjs(d).format('ll')\<close>.
\<close>

record builtins =
  trim :: "string \<Rightarrow> string"
  fakeAsUtcString :: "string \<Rightarrow> string"
  formatDate :: "string \<Rightarrow> string"

record trip =
  trip_id :: string
  trip_budget :: "money option"

record user =
  user_currencyCode :: "string option"

section \<open>The panel's state and its modal (ExpensesPanel.tsx, lines 110-179)\<close>

text \<open>
  The \<open>useState\<close> cells of the panel (\<open>notes_input\<close> is the cell \<open>notes\<close>, an
  Isabelle keyword). \<open>amount\<close> has type \<open>number | ''\<close>:
  \<open>None\<close> is the empty string.
\<close>

record panel_state =
  isModalOpen :: bool
  selectedExpense :: "expense option"
  saving :: bool
  sortBy :: "sort_column option"
  sortDirection :: sort_direction
  name :: string
  amount :: "rat option"
  currency :: string
  occurredOn :: "string option"
  notes_input :: string
  category :: "category option"
  files :: "upload_file list"
  existingAttachments :: "attachment list"

text \<open>\<open>user?.currencyCode || 'USD'\<close>\<close>

definition userCurrency :: "user option \<Rightarrow> string" where
  "userCurrency u =
     (case u of
        None \<Rightarrow> ''USD''
      | Some usr \<Rightarrow>
          (case user_currencyCode usr of
             None \<Rightarrow> ''USD''
           | Some c \<Rightarrow> if c \<noteq> [] then c else ''USD''))"

text \<open>\<open>trip.budget?.currency || user?.currencyCode || 'USD'\<close>\<close>

definition defaultCurrency :: "trip \<Rightarrow> user option \<Rightarrow> string" where
  "defaultCurrency tr u =
     (case trip_budget tr of
        None \<Rightarrow> userCurrency u
      | Some b \<Rightarrow> if money_currency b \<noteq> [] then money_currency b else userCurrency u)"

definition resetForm :: "trip \<Rightarrow> user option \<Rightarrow> panel_state \<Rightarrow> panel_state" where
  "resetForm tr u st =
     st\<lparr>name := [], amount := None, currency := defaultCurrency tr u, occurredOn := None,
        notes_input := [], category := None, files := [], existingAttachments := []\<rparr>"

definition closeModal :: "trip \<Rightarrow> user option \<Rightarrow> panel_state \<Rightarrow> panel_state" where
  "closeModal tr u st = resetForm tr u (st\<lparr>isModalOpen := False, selectedExpense := None\<rparr>)"

definition openModalForAdd :: "trip \<Rightarrow> user option \<Rightarrow> panel_state \<Rightarrow> panel_state" where
  "openModalForAdd tr u st = (resetForm tr u st)\<lparr>selectedExpense := None, isModalOpen := True\<rparr>"

definition openModalForEdit ::
  "trip \<Rightarrow> user option \<Rightarrow> attachment list option \<Rightarrow> expense \<Rightarrow> panel_state \<Rightarrow> panel_state" where
  "openModalForEdit tr u tripAttachments e st =
     (let refs = (case exp_attachmentReferences e of None \<Rightarrow> [] | Some r \<Rightarrow> r);
          atts = filter (\<lambda>a. att_id a \<in> set refs)
                   (case tripAttachments of None \<Rightarrow> [] | Some as \<Rightarrow> as)
      in st\<lparr>name := exp_name e,
            amount := (case exp_cost e of
                         None \<Rightarrow> None
                       | Some c \<Rightarrow> if money_value c \<noteq> 0 then Some (money_value c) else None),
            currency := (case exp_cost e of
                           None \<Rightarrow> defaultCurrency tr u
                         | Some c \<Rightarrow> if money_currency c \<noteq> [] then money_currency c
                                     else defaultCurrency tr u),
            occurredOn := (case exp_occurredOn e of
                             None \<Rightarrow> None
                           | Some d \<Rightarrow> if d \<noteq> [] then Some d else None),
            notes_input := (case exp_notes e of None \<Rightarrow> [] | Some n \<Rightarrow> n),
            category := exp_category e,
            existingAttachments := atts,
            selectedExpense := Some e,
            isModalOpen := True\<rparr>)"

section \<open>Saving an expense (ExpensesPanel.tsx, lines 181-222 and 798)\<close>

text \<open>\<open>!amount\<close>: the empty string and the number 0 are falsy.\<close>

definition falsyAmount :: "rat option \<Rightarrow> bool" where
  "falsyAmount a = (case a of None \<Rightarrow> True | Some v \<Rightarrow> v = 0)"

text \<open>\<open>Number(amount)\<close>: the number itself, and 0 for the empty string.\<close>

definition numberOf :: "rat option \<Rightarrow> rat" where
  "numberOf a = (case a of None \<Rightarrow> 0 | Some v \<Rightarrow> v)"

text \<open>The \<open>disabled\<close> property of the Save button (line 798).\<close>

definition saveDisabled :: "panel_state \<Rightarrow> bool" where
  "saveDisabled st = (name st = [] \<or> falsyAmount (amount st) \<or> currency st = [])"

definition costJson :: "rat \<Rightarrow> string \<Rightarrow> json" where
  "costJson v c = JObj [(''value'', JNum v), (''currency'', JStr c)]"

text \<open>The object literal of lines 191-199.\<close>

definition savePayload :: "builtins \<Rightarrow> trip \<Rightarrow> panel_state \<Rightarrow> attachment list \<Rightarrow> payload" where
  "savePayload js tr st uploadedAttachments =
     (let newAttachmentIds = map att_id uploadedAttachments;
          existingAttachmentIds = map att_id (existingAttachments st);
          allAttachmentIds = existingAttachmentIds @ newAttachmentIds
      in [(''name'', JStr (trim js (name st))),
          (''trip'', JStr (trip_id tr)),
          (''cost'', costJson (numberOf (amount st)) (currency st)),
          (''occurredOn'',
             (case occurredOn st of
                None \<Rightarrow> JUndefined
              | Some d \<Rightarrow> if d \<noteq> [] then JStr (fakeAsUtcString js d) else JUndefined)),
          (''notes'',
             (if trim js (notes_input st) \<noteq> [] then JStr (trim js (notes_input st)) else JUndefined)),
          (''category'',
             (case category st of None \<Rightarrow> JUndefined | Some c \<Rightarrow> JStr (category_key c))),
          (''attachmentReferences'', JArr (map JStr allAttachmentIds))])"

text \<open>The repository call of lines 201-207 and what it resolves or rejects with.\<close>

definition saveCall :: "panel_state \<Rightarrow> payload \<Rightarrow> event" where
  "saveCall st p =
     (case selectedExpense st of
        Some sel \<Rightarrow> UpdateExpense (exp_id sel) p
      | None \<Rightarrow> CreateExpense p)"

definition saveResponse :: "api \<Rightarrow> panel_state \<Rightarrow> payload \<Rightarrow> js_error + expense" where
  "saveResponse a st p =
     (case selectedExpense st of
        Some sel \<Rightarrow> updateExpense a (exp_id sel) p
      | None \<Rightarrow> createExpense a p)"

text \<open>The notification of the \<open>catch\<close> block (lines 212-218).\<close>

definition saveFailed :: "panel_state \<Rightarrow> js_error \<Rightarrow> event" where
  "saveFailed st err =
     ShowErrorNotification err
       (case selectedExpense st of
          Some sel \<Rightarrow> T ''failed_to_update_expense'' ''Failed to update expense'' []
        | None \<Rightarrow> T ''failed_to_create_expense'' ''Failed to create expense'' [])
       (T ''try_again_later'' ''Please try again later.'' [])"

text \<open>
  \<open>onSave\<close> returns the calls it made and the state it leaves. The \<open>try\<close> block
  stops at the first rejected call; \<open>finally\<close> resets \<open>saving\<close>.
\<close>

definition onSave ::
  "builtins \<Rightarrow> api \<Rightarrow> trip \<Rightarrow> user option \<Rightarrow> panel_state \<Rightarrow> event list \<times> panel_state" where
  "onSave js a tr u st =
     (if name st = [] \<or> falsyAmount (amount st) \<or> currency st = [] then ([], st)
      else
        (let st1 = st\<lparr>saving := True\<rparr>;
             upload = UploadAttachments (trip_id tr) (files st)
         in case uploadAttachments a (trip_id tr) (files st) of
              Inl err \<Rightarrow> ([upload, saveFailed st err], st1\<lparr>saving := False\<rparr>)
            | Inr uploadedAttachments \<Rightarrow>
                (let p = savePayload js tr st uploadedAttachments
                 in case saveResponse a st p of
                      Inl err \<Rightarrow> ([upload, saveCall st p, saveFailed st err], st1\<lparr>saving := False\<rparr>)
                    | Inr saved \<Rightarrow>
                        ([upload, saveCall st p,
                          InvalidateQueries ''listExpenses'' (trip_id tr),
                          InvalidateQueries ''getTripAttachments'' (trip_id tr)],
                         (closeModal tr u st1)\<lparr>saving := False\<rparr>))))"

section \<open>Deleting an expense (ExpensesPanel.tsx, lines 224-253)\<close>

text \<open>What the user does with the confirmation dialog.\<close>

datatype confirm_choice = ConfirmClicked | CancelClicked

definition confirmDialog :: "expense \<Rightarrow> event" where
  "confirmDialog sel =
     OpenConfirmModal (T ''delete_expense'' ''Delete Expense'' [])
       (T ''expense_deletion_confirmation''
          (''Deleting '' @ [CHR 0x22] @ ''{{name}}'' @ [CHR 0x22]
             @ ''. This action cannot be undone.'')
          [(''name'', exp_name sel)])"

definition deletedNotification :: "expense \<Rightarrow> event" where
  "deletedNotification sel =
     ShowDeleteNotification (T ''expenses'' ''Expenses'' [])
       (T ''expense_deleted'' ''Expense {{name}} has been deleted'' [(''name'', exp_name sel)])"

text \<open>
  \<open>removeExpense\<close> is the \<open>mutate\<close> function of \<open>useMutation\<close>. Calling it only
  schedules the mutation: the mutation function, which makes the delete call, runs
  after the handler that called \<open>mutate\<close> has returned. The mutation has an
  \<open>onSuccess\<close> handler only, which runs when the call resolves; a rejection is
  absorbed by \<open>mutate\<close> and reaches no handler. \<open>removeExpense a tr i\<close> is what the
  scheduled mutation does once it runs.
\<close>

definition removeExpense :: "api \<Rightarrow> trip \<Rightarrow> string \<Rightarrow> event list" where
  "removeExpense a tr i =
     DeleteExpense i
       # (case deleteExpense a i of
            Inr done_ok \<Rightarrow> [InvalidateQueries ''listExpenses'' (trip_id tr)]
          | Inl err \<Rightarrow> [])"

text \<open>
  \<open>onConfirm\<close> (lines 244-251) calls \<open>removeExpense\<close>, shows the notification and
  closes the modal: what it shows, the state it leaves, and the id of the mutation it
  has scheduled.
\<close>

definition onConfirm ::
  "trip \<Rightarrow> user option \<Rightarrow> expense \<Rightarrow> panel_state \<Rightarrow> event list \<times> panel_state \<times> string" where
  "onConfirm tr u sel st = ([deletedNotification sel], closeModal tr u st, exp_id sel)"

text \<open>
  \<open>handleDelete\<close> opens the dialog; on confirmation \<open>onConfirm\<close> runs to its end and
  the scheduled mutation runs after it.
\<close>

definition handleDelete ::
  "api \<Rightarrow> trip \<Rightarrow> user option \<Rightarrow> confirm_choice \<Rightarrow> panel_state \<Rightarrow> event list \<times> panel_state" where
  "handleDelete a tr u choice st =
     (case selectedExpense st of
        None \<Rightarrow> ([], st)
      | Some sel \<Rightarrow>
          (case choice of
             CancelClicked \<Rightarrow> ([confirmDialog sel], st)
           | ConfirmClicked \<Rightarrow>
               (case onConfirm tr u sel st of
                  (shown, st2, scheduled) \<Rightarrow>
                    (confirmDialog sel # shown @ removeExpense a tr scheduled, st2))))"

section \<open>The expense cards (ExpensesPanel.tsx, lines 292-298 and 321-397)\<close>

text \<open>\<open>EXPENSE_CATEGORY_DATA[c].label\<close>\<close>

fun category_label :: "category \<Rightarrow> message" where
  "category_label Lodging = T ''expense_category_lodging'' ''Lodging'' []"
| "category_label Transportation = T ''expense_category_transportation'' ''Transportation'' []"
| "category_label Food = T ''expense_category_food'' ''Food'' []"
| "category_label Entertainment = T ''expense_category_entertainment'' ''Entertainment'' []"
| "category_label Shopping = T ''expense_category_shopping'' ''Shopping'' []"
| "category_label Activities = T ''expense_category_activities'' ''Activities'' []"
| "category_label Healthcare = T ''expense_category_healthcare'' ''Healthcare'' []"
| "category_label Communication = T ''expense_category_communication'' ''Communication'' []"
| "category_label Insurance = T ''expense_category_insurance'' ''Insurance'' []"
| "category_label Visa_fees = T ''expense_category_visa_fees'' ''Visa Fees'' []"
| "category_label Souvenirs = T ''expense_category_souvenirs'' ''Souvenirs'' []"
| "category_label Tips = T ''expense_category_tips'' ''Tips'' []"
| "category_label Other = T ''expense_category_other'' ''Other'' []"

text \<open>
  What a card shows below its title: the date when there is one, the category badge,
  the amount (value and currency) and the names of the attachments.
\<close>

datatype card_row =
    DateRow string
  | CategoryRow message
  | AmountRow rat string
  | AttachmentsRow "string list"

record card =
  card_key :: string
  card_title :: string
  card_rows :: "card_row list"

text \<open>The \<open>forEach\<close> of lines 292-298: a later expense with the same id overwrites.\<close>

definition expenseAttachmentsMap ::
  "attachment list option \<Rightarrow> expense list \<Rightarrow> (string \<rightharpoonup> attachment list)" where
  "expenseAttachmentsMap tripAttachments expenses =
     foldl (\<lambda>m e.
              m(exp_id e \<mapsto>
                (case tripAttachments of
                   None \<Rightarrow> []
                 | Some atts \<Rightarrow>
                     filter (\<lambda>a. case exp_attachmentReferences e of
                                    None \<Rightarrow> False
                                  | Some refs \<Rightarrow> att_id a \<in> set refs) atts)))
       Map.empty expenses"

definition expenseCard :: "builtins \<Rightarrow> (string \<rightharpoonup> attachment list) \<Rightarrow> expense \<Rightarrow> card" where
  "expenseCard js attachmentsMap e =
     \<lparr>card_key = exp_id e,
      card_title = exp_name e,
      card_rows =
        (case exp_occurredOn e of
           None \<Rightarrow> []
         | Some d \<Rightarrow> if d \<noteq> [] then [DateRow (formatDate js d)] else [])
        @ [CategoryRow (category_label (categoryOrOther e))]
        @ (case exp_convertedCost e of
             None \<Rightarrow> []
           | Some m \<Rightarrow> [AmountRow (money_value m) (money_currency m)])
        @ (case attachmentsMap (exp_id e) of
             None \<Rightarrow> []
           | Some atts \<Rightarrow> [AttachmentsRow (map att_name atts)])\<rparr>"

definition expenseCards ::
  "builtins \<Rightarrow> attachment list option \<Rightarrow> expense list \<Rightarrow> expense list \<Rightarrow> card list" where
  "expenseCards js tripAttachments expenses sorted_expenses =
     map (expenseCard js (expenseAttachmentsMap tripAttachments expenses)) sorted_expenses"

section \<open>Currency conversion\<close>

record conversion_rate =
  rate_base :: string
  rate_target :: string
  rate_value :: rat

text \<open>
  Modelled from the spec: \<open>convertExpenses\<close> is imported from helper.ts, which is not
  among the sources. Section 4.1 of the spec, steps 1 to 3: the target currency is the
  trip's budget currency, else the user's currency, else a fixed default code (the
  chain \<open>defaultCurrency\<close> of the panel); an expense in the target currency keeps its
  cost as the converted cost; otherwise a rate from the expense's currency to the
  target is looked up, and the converted value is the cost times the rate, rounded to
  two decimal places; with no rate the conversion is skipped and the expense is left
  as it is.
\<close>

definition findRate :: "conversion_rate list \<Rightarrow> string \<Rightarrow> string \<Rightarrow> conversion_rate option" where
  "findRate rates base target = find (\<lambda>r. rate_base r = base \<and> rate_target r = target) rates"

definition round2 :: "rat \<Rightarrow> rat" where
  "round2 x = of_int \<lfloor>x * 100 + 1 / 2\<rfloor> / 100"

definition convertExpense :: "conversion_rate list \<Rightarrow> string \<Rightarrow> expense \<Rightarrow> expense" where
  "convertExpense rates target e =
     (case exp_cost e of
        None \<Rightarrow> e
      | Some c \<Rightarrow>
          if money_currency c = target then e\<lparr>exp_convertedCost := Some c\<rparr>
          else
            (case findRate rates (money_currency c) target of
               None \<Rightarrow> e
             | Some r \<Rightarrow>
                 e\<lparr>exp_convertedCost :=
                     Some \<lparr>money_value = round2 (money_value c * rate_value r),
                           money_currency = target\<rparr>\<rparr>))"

definition convertExpenses ::
  "user option \<Rightarrow> trip \<Rightarrow> expense list \<Rightarrow> conversion_rate list \<Rightarrow> expense list" where
  "convertExpenses u tr rawExpenses rates =
     map (convertExpense rates (defaultCurrency tr u)) rawExpenses"

section \<open>Listing the expenses of a trip (unnamed/part_000, lines 9-20)\<close>

text \<open>The arguments of \<open>getList(page, perPage, { filter, sort })\<close>.\<close>

record list_query =
  q_page :: nat
  q_perPage :: nat
  q_filter :: string
  q_sort :: string

definition listExpensesQuery :: "string \<Rightarrow> list_query" where
  "listExpensesQuery tripId =
     \<lparr>q_page = 1, q_perPage = 200,
      q_filter = ''trip='' @ [CHR 0x22] @ tripId @ [CHR 0x22],
      q_sort = ''-occurredOn,-created''\<rparr>"

text \<open>
  \<open>entry.occurredOn ? convertSavedToBrowserDate(entry.occurredOn) : entry.occurredOn\<close>;
  \<open>convertSavedToBrowserDate\<close> of time.ts is a parameter.
\<close>

definition browserDated :: "(string \<Rightarrow> string) \<Rightarrow> expense \<Rightarrow> expense" where
  "browserDated convertSavedToBrowserDate entry =
     entry\<lparr>exp_occurredOn :=
       (case exp_occurredOn entry of
          None \<Rightarrow> None
        | Some d \<Rightarrow> if d \<noteq> [] then Some (convertSavedToBrowserDate d) else Some d)\<rparr>"

text \<open>\<open>getList\<close> is the collection's call: the items of the page it resolves with, or a rejection.\<close>

definition listExpenses ::
  "(list_query \<Rightarrow> js_error + expense list) \<Rightarrow> (string \<Rightarrow> string) \<Rightarrow> string
     \<Rightarrow> js_error + expense list" where
  "listExpenses getList convertSavedToBrowserDate tripId =
     (case getList (listExpensesQuery tripId) of
        Inl err \<Rightarrow> Inl err
      | Inr items \<Rightarrow> Inr (map (browserDated convertSavedToBrowserDate) items))"

text \<open>
  The backend is an external collaborator. Its list endpoint answers a query with one
  page of the records that match the filter, in the order of the sort:
  \<open>matching f s\<close> is that whole ordered list for a filter and a sort expression, and
  page \<open>n\<close> of size \<open>k\<close> holds its records from position \<open>(n - 1) * k\<close> on, at most
  \<open>k\<close> of them.
\<close>

definition backendPage :: "(string \<Rightarrow> string \<Rightarrow> expense list) \<Rightarrow> list_query \<Rightarrow> js_error + expense list" where
  "backendPage matching q =
     Inr (take (q_perPage q) (drop ((q_page q - 1) * q_perPage q) (matching (q_filter q) (q_sort q))))"

section \<open>Submitting the flight form (FlightForm.tsx, lines 115-204)\<close>

text \<open>
  \<open>values.origin\<close> and \<open>values.destination\<close> hold an airport object (with its
  \<open>iataCode\<close>) or a plain string; \<open>None\<close> is \<open>undefined\<close>, on which the property
  access \<open>.iataCode\<close> throws.
\<close>

datatype place = Airport string json | PlaceText string

record flight_values =
  v_origin :: "place option"
  v_destination :: "place option"
  v_departureTime :: string
  v_arrivalTime :: string
  v_provider :: json
  v_reservation :: json
  v_cost :: "rat option"
  v_currencyCode :: string
  v_flightNumber :: string
  v_seats :: string

record transportation =
  tr_id :: string
  tr_expenseId :: "string option"
  tr_attachmentReferences :: "string list"

text \<open>\<open>values.origin.iataCode || values.origin\<close>\<close>

definition iataOrSelf :: "place \<Rightarrow> json" where
  "iataOrSelf p =
     (case p of
        Airport code obj \<Rightarrow> if code \<noteq> [] then JStr code else obj
      | PlaceText s \<Rightarrow> JStr s)"

definition placeJson :: "place \<Rightarrow> json" where
  "placeJson p = (case p of Airport code obj \<Rightarrow> obj | PlaceText s \<Rightarrow> JStr s)"

text \<open>The same expression inside a template string.\<close>

definition placeText :: "place \<Rightarrow> string" where
  "placeText p =
     (case p of
        Airport code obj \<Rightarrow> if code \<noteq> [] then code else ''[object Object]''
      | PlaceText s \<Rightarrow> s)"

text \<open>Lines 123-128: the linked expense id, dropped when the expense map does not have it.\<close>

definition linkedExpenseId ::
  "transportation option \<Rightarrow> (string \<rightharpoonup> expense) option \<Rightarrow> string option" where
  "linkedExpenseId transportation expenseMap =
     (case (case transportation of None \<Rightarrow> None | Some t \<Rightarrow> tr_expenseId t) of
        None \<Rightarrow> None
      | Some expenseId \<Rightarrow>
          if expenseId \<noteq> [] \<and> (case expenseMap of None \<Rightarrow> False | Some m \<Rightarrow> m expenseId = None)
          then None else Some expenseId)"

text \<open>\<open>values.cost && values.cost > 0\<close>, with the cost when it holds.\<close>

definition positiveCost :: "flight_values \<Rightarrow> rat option" where
  "positiveCost values =
     (case v_cost values of None \<Rightarrow> None | Some c \<Rightarrow> if c \<noteq> 0 \<and> c > 0 then Some c else None)"

text \<open>The object literal of lines 142-151.\<close>

definition expenseData :: "builtins \<Rightarrow> trip \<Rightarrow> flight_values \<Rightarrow> place \<Rightarrow> place \<Rightarrow> rat \<Rightarrow> payload" where
  "expenseData js tr values origin destination c =
     [(''name'', JStr (''Flight: '' @ placeText origin @ '' to '' @ placeText destination)),
      (''trip'', JStr (trip_id tr)),
      (''cost'', costJson c (v_currencyCode values)),
      (''occurredOn'', JStr (fakeAsUtcString js (v_departureTime values))),
      (''category'', JStr ''transportation'')]"

text \<open>
  Lines 122-159: the calls made on the expense repository, and the \<open>expenseId\<close> left
  in the local variable, or the error that left the \<open>try\<close> block.
\<close>

definition syncExpense ::
  "builtins \<Rightarrow> api \<Rightarrow> trip \<Rightarrow> transportation option \<Rightarrow> (string \<rightharpoonup> expense) option
     \<Rightarrow> flight_values \<Rightarrow> event list \<times> (js_error + string option)" where
  "syncExpense js a tr transportation expenseMap values =
     (let expenseId = linkedExpenseId transportation expenseMap;
          linked = (case expenseId of None \<Rightarrow> None | Some i \<Rightarrow> if i \<noteq> [] then Some i else None)
      in case positiveCost values of
           Some c \<Rightarrow>
             (case linked of
                Some i \<Rightarrow>
                  ([UpdateExpense i [(''cost'', costJson c (v_currencyCode values))]],
                   (case updateExpense a i [(''cost'', costJson c (v_currencyCode values))] of
                      Inl err \<Rightarrow> Inl err
                    | Inr updated \<Rightarrow> Inr expenseId))
              | None \<Rightarrow>
                  (case (v_origin values, v_destination values) of
                     (Some origin, Some destination) \<Rightarrow>
                       ([CreateExpense (expenseData js tr values origin destination c)],
                        (case createExpense a (expenseData js tr values origin destination c) of
                           Inl err \<Rightarrow> Inl err
                         | Inr newExpense \<Rightarrow> Inr (Some (exp_id newExpense))))
                   | (None, d) \<Rightarrow> ([], Inl (TypeError ''values.origin is undefined''))
                   | (Some origin, None) \<Rightarrow> ([], Inl (TypeError ''values.destination is undefined''))))
         | None \<Rightarrow>
             (case linked of
                Some i \<Rightarrow>
                  ([DeleteExpense i],
                   (case deleteExpense a i of Inl err \<Rightarrow> Inl err | Inr deleted \<Rightarrow> Inr None))
              | None \<Rightarrow> ([], Inr expenseId)))"

text \<open>The object literal of lines 161-180.\<close>

definition transportationPayload ::
  "builtins \<Rightarrow> trip \<Rightarrow> flight_values \<Rightarrow> place \<Rightarrow> place \<Rightarrow> payload" where
  "transportationPayload js tr values origin destination =
     [(''type'', JStr ''flight''),
      (''origin'', iataOrSelf origin),
      (''destination'', iataOrSelf destination),
      (''cost'', JObj [(''value'', (case v_cost values of None \<Rightarrow> JUndefined | Some c \<Rightarrow> JNum c)),
                       (''currency'', JStr (v_currencyCode values))]),
      (''departureTime'', JStr (fakeAsUtcString js (v_departureTime values))),
      (''arrivalTime'', JStr (fakeAsUtcString js (v_arrivalTime values))),
      (''trip'', JStr (trip_id tr)),
      (''metadata'',
         JObj [(''provider'', v_provider values),
               (''reservation'', v_reservation values),
               (''origin'', placeJson origin),
               (''destination'', placeJson destination),
               (''flightNumber'', JStr (v_flightNumber values)),
               (''seats'', JStr (v_seats values))])]"

definition submitFailed :: "js_error \<Rightarrow> event" where
  "submitFailed err =
     ShowErrorNotification err (T ''flight_creation_failed'' ''Unable to save Flight'' [])
       (Plain ''Please try again later.'')"

text \<open>
  Lines 182-194. With an existing transportation the attachment references and the
  expense id are assigned to the \<open>transportation\<close> object the component received, and
  \<open>payload\<close> is what \<open>updateTransportation\<close> is called with; for a new one they are
  assigned to \<open>payload\<close>. The result is the call made, what it resolves or rejects
  with, and the \<open>transportation\<close> object after the assignments.
\<close>

definition saveTransportation ::
  "api \<Rightarrow> transportation option \<Rightarrow> attachment list option \<Rightarrow> attachment list \<Rightarrow> string option
     \<Rightarrow> payload \<Rightarrow> event list \<times> (js_error + unit) \<times> transportation option" where
  "saveTransportation a transportation exitingAttachments attachments expenseId p =
     (let create =
            (let p2 = p @ [(''attachmentReferences'', JArr (map (\<lambda>x. JStr (att_id x)) attachments)),
                           (''expenseId'', (case expenseId of None \<Rightarrow> JUndefined | Some i \<Rightarrow> JStr i))]
             in ([CreateTransportationEntry p2], createTransportationEntry a p2, transportation))
      in case transportation of
           None \<Rightarrow> create
         | Some t \<Rightarrow>
             if tr_id t \<noteq> [] then
               ([UpdateTransportation (tr_id t) p],
                updateTransportation a (tr_id t) p,
                Some (t\<lparr>tr_attachmentReferences :=
                          map att_id (case exitingAttachments of None \<Rightarrow> [] | Some as \<Rightarrow> as)
                            @ map att_id attachments,
                        tr_expenseId := expenseId\<rparr>))
             else create)"

text \<open>
  The handler returns the calls it made and the \<open>transportation\<close> object it leaves.
  The \<open>try\<close> block stops at the first rejected call or thrown error, which the
  \<open>catch\<close> block reports. The \<open>saving\<close> flag of the form, set on entry and reset
  in \<open>finally\<close>, is left out.
\<close>

definition handleFormSubmit ::
  "builtins \<Rightarrow> api \<Rightarrow> trip \<Rightarrow> transportation option \<Rightarrow> attachment list option
     \<Rightarrow> (string \<rightharpoonup> expense) option \<Rightarrow> upload_file list \<Rightarrow> flight_values
     \<Rightarrow> event list \<times> transportation option" where
  "handleFormSubmit js a tr transportation exitingAttachments expenseMap formFiles values =
     (let upload = UploadAttachments (trip_id tr) formFiles
      in case uploadAttachments a (trip_id tr) formFiles of
           Inl err \<Rightarrow> ([upload, submitFailed err], transportation)
         | Inr attachments \<Rightarrow>
             (case syncExpense js a tr transportation expenseMap values of
                (calls, Inl err) \<Rightarrow> (upload # calls @ [submitFailed err], transportation)
              | (calls, Inr expenseId) \<Rightarrow>
                  (case (v_origin values, v_destination values) of
                     (Some origin, Some destination) \<Rightarrow>
                       (case saveTransportation a transportation exitingAttachments attachments
                               expenseId (transportationPayload js tr values origin destination) of
                          (saves, Inl err, t2) \<Rightarrow> (upload # calls @ saves @ [submitFailed err], t2)
                        | (saves, Inr saved, t2) \<Rightarrow> (upload # calls @ saves @ [OnSuccess], t2))
                   | (None, d) \<Rightarrow>
                       (upload # calls @ [submitFailed (TypeError ''values.origin is undefined'')],
                        transportation)
                   | (Some origin, None) \<Rightarrow>
                       (upload # calls
                          @ [submitFailed (TypeError ''values.destination is undefined'')],
                        transportation))))"

text \<open>The payload an event hands to the expense repository, if it is a create or an update.\<close>

fun expensePayload :: "event \<Rightarrow> payload option" where
  "expensePayload (CreateExpense p) = Some p"
| "expensePayload (UpdateExpense i p) = Some p"
| "expensePayload ev = None"

section \<open>Example data\<close>

text \<open>
  The scenarios of section 8 of the spec, for a trip whose budget currency is EUR:
  expense A of 100 USD converted at 0.9, expense B of 50 EUR, and expense C of 30 JPY
  for which no rate is supplied.
\<close>

definition ex_trip :: trip where
  "ex_trip = \<lparr>trip_id = ''trip1'', trip_budget = Some \<lparr>money_value = 1000, money_currency = ''EUR''\<rparr>\<rparr>"

definition ex_rates :: "conversion_rate list" where
  "ex_rates = [\<lparr>rate_base = ''USD'', rate_target = ''EUR'', rate_value = 9 / 10\<rparr>]"

definition raw_A :: expense where
  "raw_A = \<lparr>exp_id = ''a'', exp_trip = ''trip1'', exp_name = ''A'',
            exp_cost = Some \<lparr>money_value = 100, money_currency = ''USD''\<rparr>,
            exp_occurredOn = Some ''2024-05-02'', exp_notes = None, exp_category = Some Food,
            exp_attachmentReferences = None, exp_convertedCost = None\<rparr>"

definition raw_B :: expense where
  "raw_B = \<lparr>exp_id = ''b'', exp_trip = ''trip1'', exp_name = ''B'',
            exp_cost = Some \<lparr>money_value = 50, money_currency = ''EUR''\<rparr>,
            exp_occurredOn = None, exp_notes = None, exp_category = Some Lodging,
            exp_attachmentReferences = None, exp_convertedCost = None\<rparr>"

definition raw_C :: expense where
  "raw_C = \<lparr>exp_id = ''c'', exp_trip = ''trip1'', exp_name = ''C'',
            exp_cost = Some \<lparr>money_value = 30, money_currency = ''JPY''\<rparr>,
            exp_occurredOn = None, exp_notes = None, exp_category = None,
            exp_attachmentReferences = None, exp_convertedCost = None\<rparr>"

definition ex_A :: expense where
  "ex_A = raw_A\<lparr>exp_convertedCost := Some \<lparr>money_value = 90, money_currency = ''EUR''\<rparr>\<rparr>"

definition ex_B :: expense where
  "ex_B = raw_B\<lparr>exp_convertedCost := Some \<lparr>money_value = 50, money_currency = ''EUR''\<rparr>\<rparr>"

definition ex_js :: builtins where
  "ex_js = \<lparr>trim = (\<lambda>s. s), fakeAsUtcString = (\<lambda>s. s), formatDate = (\<lambda>s. s)\<rparr>"

text \<open>A backend on which every call succeeds, and one on which every call is rejected.\<close>

definition api_ok :: api where
  "api_ok =
     \<lparr>uploadAttachments = (\<lambda>t fs. Inr []),
      createExpense = (\<lambda>p. Inr raw_A),
      updateExpense = (\<lambda>i p. Inr raw_A),
      deleteExpense = (\<lambda>i. Inr ()),
      updateTransportation = (\<lambda>i p. Inr ()),
      createTransportationEntry = (\<lambda>p. Inr ())\<rparr>"

definition api_down :: api where
  "api_down =
     \<lparr>uploadAttachments = (\<lambda>t fs. Inl (Rejected ''upload'')),
      createExpense = (\<lambda>p. Inl (Rejected ''create'')),
      updateExpense = (\<lambda>i p. Inl (Rejected ''update'')),
      deleteExpense = (\<lambda>i. Inl (Rejected ''delete'')),
      updateTransportation = (\<lambda>i p. Inl (Rejected ''update'')),
      createTransportationEntry = (\<lambda>p. Inl (Rejected ''create''))\<rparr>"

text \<open>The form as the user filled it in for a new expense, and while editing expense A.\<close>

definition ex_form :: panel_state where
  "ex_form =
     \<lparr>isModalOpen = True, selectedExpense = None, saving = False, sortBy = None,
      sortDirection = Asc, name = ''Dinner'', amount = Some 42, currency = ''EUR'',
      occurredOn = None, notes_input = [], category = Some Food, files = [],
      existingAttachments = []\<rparr>"

definition ex_edit :: panel_state where
  "ex_edit = openModalForEdit ex_trip None None ex_A ex_form"

text \<open>
  A flight from SFO to Tokyo for 420 USD; a saved flight linked to the expense
  \<open>e1\<close>, and the expense map that holds it.
\<close>

definition ex_values :: flight_values where
  "ex_values =
     \<lparr>v_origin = Some (Airport ''SFO'' (JObj [(''iataCode'', JStr ''SFO'')])),
      v_destination = Some (PlaceText ''Tokyo''),
      v_departureTime = ''2024-05-02T10:00'', v_arrivalTime = ''2024-05-03T14:00'',
      v_provider = JStr ''UA'', v_reservation = JStr ''ABC123'',
      v_cost = Some 420, v_currencyCode = ''USD'',
      v_flightNumber = ''UA837'', v_seats = ''12A''\<rparr>"

definition ex_flight :: transportation where
  "ex_flight = \<lparr>tr_id = ''t1'', tr_expenseId = Some ''e1'', tr_attachmentReferences = []\<rparr>"

definition ex_expenseMap :: "string \<rightharpoonup> expense" where
  "ex_expenseMap = [''e1'' \<mapsto> raw_A\<lparr>exp_id := ''e1''\<rparr>]"

text \<open>An expense in the display currency with the given id, category and amount.\<close>

definition ex_spend :: "string \<Rightarrow> category \<Rightarrow> rat \<Rightarrow> expense" where
  "ex_spend i c v =
     \<lparr>exp_id = i, exp_trip = ''trip1'', exp_name = i,
      exp_cost = Some \<lparr>money_value = v, money_currency = ''EUR''\<rparr>,
      exp_occurredOn = None, exp_notes = None, exp_category = Some c,
      exp_attachmentReferences = None,
      exp_convertedCost = Some \<lparr>money_value = v, money_currency = ''EUR''\<rparr>\<rparr>"

section \<open>Facts about the sort\<close>

lemma insertBy_insort_key:
  assumes "\<And>a b. (cmp a b \<le> 0) = (f a \<le> f b)"
  shows "insertBy cmp x ys = insort_key f x ys"
  by (induction ys) (auto simp: assms)

lemma js_sort_sort_key:
  assumes "\<And>a b. (cmp a b \<le> 0) = (f a \<le> f b)"
  shows "js_sort cmp xs = sort_key f xs"
  by (induction xs) (auto simp: js_sort_def insertBy_insort_key [of cmp f, OF assms])

lemma mset_insertBy: "mset (insertBy cmp x ys) = add_mset x (mset ys)"
  by (induction ys) auto

lemma mset_js_sort: "mset (js_sort cmp xs) = mset xs"
  by (induction xs) (auto simp: js_sort_def mset_insertBy)

lemma set_js_sort: "set (js_sort cmp xs) = set xs"
  using mset_js_sort [of cmp xs] by (metis set_mset_mset)

lemma mset_sortedExpenses: "mset (sortedExpenses lc gt sb sd xs) = mset xs"
  by (simp add: sortedExpenses_def mset_js_sort)

lemma set_sortedExpenses: "set (sortedExpenses lc gt sb sd xs) = set xs"
  by (simp add: sortedExpenses_def set_js_sort)




section \<open>Facts about the totals\<close>

lemma foldl_total: "foldl (\<lambda>total e. total + amountOf e) a xs = a + sum_list (map amountOf xs)"
  by (induction xs arbitrary: a) (auto simp: algebra_simps)

lemma totalExpenses_sum: "totalExpenses xs = sum_list (map amountOf xs)"
  by (simp add: totalExpenses_def foldl_total)

lemma sum_list_amount_mset:
  "mset xs = mset ys \<Longrightarrow> sum_list (map amountOf xs) = sum_list (map amountOf ys)"
  by (metis mset_map sum_mset_sum_list)

lemma amountOf_converted:
  "exp_convertedCost e \<noteq> None \<Longrightarrow> amountOf e = money_value (the (exp_convertedCost e))"
  by (auto simp: amountOf_def)

lemma amountOf_fun:
  "amountOf = (\<lambda>e. case exp_convertedCost e of None \<Rightarrow> 0 | Some m \<Rightarrow> money_value m)"
  by (rule ext) (simp add: amountOf_def split: option.splits)

lemma categoryOrOther_fun:
  "categoryOrOther = (\<lambda>e. case exp_category e of None \<Rightarrow> Other | Some k \<Rightarrow> k)"
  by (rule ext) (simp add: categoryOrOther_def)

lemma categoryTotals_exact: "categoryTotals xs = categoryTotalsIn (+) xs"
  by (simp add: categoryTotals_def categoryTotalsIn_def)

lemma foldl_plus_exact: "foldl (+) (a :: rat) vs = a + sum_list vs"
  by (induction vs arbitrary: a) (auto simp: algebra_simps)

section \<open>Facts about the category groups\<close>

lemma encounterOrder_snoc:
  "encounterOrder (xs @ [x]) =
     (if x \<in> set xs then encounterOrder xs else encounterOrder xs @ [x])"
  by (induction xs) auto

lemma set_encounterOrder: "set (encounterOrder xs) = set xs"
  by (induction xs) auto

lemma distinct_encounterOrder: "distinct (encounterOrder xs)"
  by (induction xs) auto

lemma setProperty_map_present:
  "distinct ks \<Longrightarrow> c \<in> set ks \<Longrightarrow>
   setProperty c v (map (\<lambda>k. (k, g k)) ks) = map (\<lambda>k. (k, if k = c then v else g k)) ks"
  by (induction ks) auto

lemma setProperty_map_absent:
  "c \<notin> set ks \<Longrightarrow> setProperty c v (map (\<lambda>k. (k, g k)) ks) = map (\<lambda>k. (k, g k)) ks @ [(c, v)]"
  by (induction ks) auto

lemma map_of_tabulate:
  "map_of (map (\<lambda>k. (k, g k)) ks) c = (if c \<in> set ks then Some (g c) else None)"
  by (induction ks) auto

lemma getOr0_tabulate: "getOr0 (map (\<lambda>k. (k, g k)) ks) c = (if c \<in> set ks then g c else 0)"
  by (simp add: getOr0_def map_of_tabulate)

lemma categoryTotalsIn_snoc:
  "categoryTotalsIn add (xs @ [e]) =
     setProperty (categoryOrOther e)
       (add (getOr0 (categoryTotalsIn add xs) (categoryOrOther e)) (amountOf e))
       (categoryTotalsIn add xs)"
  by (simp add: categoryTotalsIn_def Let_def)

text \<open>
  The accumulated object holds one entry per tag, in encounter order, with the
  left-to-right sum of the amounts of the expenses of that tag.
\<close>

lemma categoryTotalsIn_groups:
  "categoryTotalsIn add xs =
     map (\<lambda>c. (c, foldl add 0 (map amountOf (filter (\<lambda>e. categoryOrOther e = c) xs))))
       (encounterOrder (map categoryOrOther xs))"
proof (induction xs rule: rev_induct)
  case Nil
  show ?case
    by (simp add: categoryTotalsIn_def)
next
  case (snoc e xs)
  let ?c = "categoryOrOther e"
  let ?ks = "encounterOrder (map categoryOrOther xs)"
  let ?G = "\<lambda>ys c. foldl add 0 (map amountOf (filter (\<lambda>e. categoryOrOther e = c) ys))"
  have grow: "?G (xs @ [e]) k = (if k = ?c then add (?G xs k) (amountOf e) else ?G xs k)" for k
    by auto
  have step: "categoryTotalsIn add (xs @ [e]) =
      setProperty ?c (add (if ?c \<in> set ?ks then ?G xs ?c else 0) (amountOf e))
        (map (\<lambda>k. (k, ?G xs k)) ?ks)"
    by (simp only: categoryTotalsIn_snoc snoc.IH getOr0_tabulate)
  show ?case
  proof (cases "?c \<in> set (map categoryOrOther xs)")
    case True
    then have present: "?c \<in> set ?ks"
      by (simp only: set_encounterOrder)
    then have "categoryTotalsIn add (xs @ [e]) =
        map (\<lambda>k. (k, if k = ?c then add (?G xs ?c) (amountOf e) else ?G xs k)) ?ks"
      using step by (simp add: setProperty_map_present distinct_encounterOrder)
    also have "\<dots> = map (\<lambda>k. (k, ?G (xs @ [e]) k)) ?ks"
      by (rule map_cong) auto
    also have "\<dots> = map (\<lambda>k. (k, ?G (xs @ [e]) k)) (encounterOrder (map categoryOrOther (xs @ [e])))"
      using True by (simp add: encounterOrder_snoc)
    finally show ?thesis .
  next
    case False
    then have absent: "?c \<notin> set ?ks"
      by (simp only: set_encounterOrder) simp
    from False have "filter (\<lambda>e'. categoryOrOther e' = ?c) xs = []"
      by (auto simp: filter_empty_conv image_iff)
    then have last: "?G (xs @ [e]) ?c = add 0 (amountOf e)"
      by simp
    have others: "map (\<lambda>k. (k, ?G (xs @ [e]) k)) ?ks = map (\<lambda>k. (k, ?G xs k)) ?ks"
    proof (rule map_cong [OF refl])
      fix k
      assume "k \<in> set ?ks"
      with absent have "k \<noteq> ?c"
        by auto
      then show "(k, ?G (xs @ [e]) k) = (k, ?G xs k)"
        by auto
    qed
    from absent have "categoryTotalsIn add (xs @ [e]) =
        map (\<lambda>k. (k, ?G xs k)) ?ks @ [(?c, add 0 (amountOf e))]"
      using step by (simp add: setProperty_map_absent)
    also have "\<dots> = map (\<lambda>k. (k, ?G (xs @ [e]) k)) ?ks @ [(?c, ?G (xs @ [e]) ?c)]"
      by (simp only: others last)
    also have "\<dots> = map (\<lambda>k. (k, ?G (xs @ [e]) k)) (encounterOrder (map categoryOrOther (xs @ [e])))"
      using False by (simp add: encounterOrder_snoc)
    finally show ?thesis .
  qed
qed

lemma getOr0_categoryTotals:
  "getOr0 (categoryTotals xs) k
     = sum_list (map amountOf (filter (\<lambda>e. categoryOrOther e = k) xs))"
proof (cases "k \<in> categoryOrOther ` set xs")
  case True
  then show ?thesis
    by (simp add: categoryTotals_exact categoryTotalsIn_groups getOr0_tabulate
        set_encounterOrder foldl_plus_exact)
next
  case False
  then have "filter (\<lambda>e. categoryOrOther e = k) xs = []"
    by (auto simp: filter_empty_conv image_iff)
  with False show ?thesis
    by (simp add: categoryTotals_exact categoryTotalsIn_groups getOr0_tabulate
        set_encounterOrder)
qed

lemma sortedCategoriesIn_sort_key:
  "sortedCategoriesIn add xs = sort_key (\<lambda>p. - snd p) (categoryTotalsIn add xs)"
  unfolding sortedCategoriesIn_def
  by (rule js_sort_sort_key) (auto simp: case_prod_beta)

section \<open>Facts about sums that do not round\<close>

text \<open>
  When the addition is exact on the sums of the subsequences of a list of numbers,
  folding it over a subsequence gives the exact sum.
\<close>

lemma foldl_subseq_exact:
  assumes exact: "\<And>ys zs. subseq ys vs \<Longrightarrow> subseq zs vs \<Longrightarrow>
      add (sum_list ys) (sum_list zs) = sum_list ys + sum_list zs"
    and "subseq us vs"
  shows "foldl add (0 :: rat) us = sum_list us"
  using assms(2)
proof (induction us rule: rev_induct)
  case Nil
  show ?case by simp
next
  case (snoc u us)
  have "subseq us (us @ [u])"
    by (rule subseq_rev_drop_many) simp
  moreover have "subseq [u] (us @ [u])"
    by (rule subseq_drop_many) simp
  ultimately have "subseq us (us @ [u])" and "subseq [u] (us @ [u])"
    by simp_all
  with snoc.prems have init: "subseq us vs" and last: "subseq [u] vs"
    by (blast intro: subseq_order.order_trans)+
  have "foldl add 0 (us @ [u]) = add (sum_list us) (sum_list [u])"
    by (simp add: snoc.IH [OF init])
  also have "\<dots> = sum_list us + sum_list [u]"
    using init last by (rule exact)
  finally show ?case
    by simp
qed

lemma sum_list_filter_insert:
  fixes f :: "'a \<Rightarrow> rat"
  assumes "c \<notin> set cs"
  shows "sum_list (map f (filter (\<lambda>e. tag e \<in> set cs) xs))
           + sum_list (map f (filter (\<lambda>e. tag e = c) xs))
         = sum_list (map f (filter (\<lambda>e. tag e \<in> set (cs @ [c])) xs))"
  using assms by (induction xs) auto

lemma foldl_groups_exact:
  assumes exact: "\<And>ys zs. subseq ys (map f xs) \<Longrightarrow> subseq zs (map f xs) \<Longrightarrow>
      add (sum_list ys) (sum_list zs) = sum_list ys + sum_list zs"
    and "distinct cs"
  shows "foldl add (0 :: rat) (map (\<lambda>c. foldl add 0 (map f (filter (\<lambda>e. tag e = c) xs))) cs)
           = sum_list (map f (filter (\<lambda>e. tag e \<in> set cs) xs))"
  using assms(2)
proof (induction cs rule: rev_induct)
  case Nil
  show ?case by simp
next
  case (snoc c cs)
  have sub: "subseq (map f (filter P xs)) (map f xs)" for P
    by (simp add: subseq_map)
  have group: "foldl add 0 (map f (filter (\<lambda>e. tag e = c) xs))
      = sum_list (map f (filter (\<lambda>e. tag e = c) xs))"
    using exact sub by (rule foldl_subseq_exact)
  from snoc.prems have "distinct cs" and fresh: "c \<notin> set cs"
    by simp_all
  then have "foldl add 0 (map (\<lambda>c. foldl add 0 (map f (filter (\<lambda>e. tag e = c) xs))) (cs @ [c]))
      = add (sum_list (map f (filter (\<lambda>e. tag e \<in> set cs) xs)))
          (sum_list (map f (filter (\<lambda>e. tag e = c) xs)))"
    by (simp add: snoc.IH group)
  also have "\<dots> = sum_list (map f (filter (\<lambda>e. tag e \<in> set cs) xs))
      + sum_list (map f (filter (\<lambda>e. tag e = c) xs))"
    using sub sub by (rule exact)
  also have "\<dots> = sum_list (map f (filter (\<lambda>e. tag e \<in> set (cs @ [c])) xs))"
    using fresh by (rule sum_list_filter_insert)
  finally show ?case .
qed

lemma foldl_entries_exact:
  assumes exact: "\<And>ys zs. subseq ys (map amountOf xs) \<Longrightarrow> subseq zs (map amountOf xs) \<Longrightarrow>
      add (sum_list ys) (sum_list zs) = sum_list ys + sum_list zs"
    and "mset ps = mset (categoryTotalsIn add xs)"
  shows "foldl add 0 (map snd ps) = sum_list (map amountOf xs)"
proof -
  let ?G = "\<lambda>c. foldl add 0 (map amountOf (filter (\<lambda>e. categoryOrOther e = c) xs))"
  let ?ks = "encounterOrder (map categoryOrOther xs)"
  have entries: "set ps = set (map (\<lambda>c. (c, ?G c)) ?ks)"
    using assms(2) by (metis categoryTotalsIn_groups mset_eq_setD)
  have "mset (map fst ps) = mset (map fst (map (\<lambda>c. (c, ?G c)) ?ks))"
    using assms(2) by (metis categoryTotalsIn_groups mset_map)
  then have tags: "mset (map fst ps) = mset ?ks"
    by (simp add: comp_def)
  then have distinct: "distinct (map fst ps)"
    using distinct_encounterOrder [of "map categoryOrOther xs"] by (metis mset_eq_imp_distinct_iff)
  have vals: "map snd ps = map ?G (map fst ps)"
    using entries by (auto simp: comp_def)
  have groups: "foldl add 0 (map ?G (map fst ps))
      = sum_list (map amountOf (filter (\<lambda>e. categoryOrOther e \<in> set (map fst ps)) xs))"
  proof (rule foldl_groups_exact)
    show "distinct (map fst ps)"
      by (rule distinct)
    show "add (sum_list ys) (sum_list zs) = sum_list ys + sum_list zs"
      if "subseq ys (map amountOf xs)" and "subseq zs (map amountOf xs)" for ys zs
      using that by (rule exact)
  qed
  have "foldl add 0 (map snd ps)
      = sum_list (map amountOf (filter (\<lambda>e. categoryOrOther e \<in> set (map fst ps)) xs))"
    by (simp only: vals groups)
  moreover have "set (map fst ps) = categoryOrOther ` set xs"
    using tags by (metis mset_eq_setD set_encounterOrder set_map)
  ultimately show ?thesis
    by simp
qed

section \<open>Claims about the statistics and the sort\<close>

text \<open>
  C4, as the code has it. For every expense list in which each expense has a
  converted cost, the category grouping partitions the list: no category has two
  groups, every expense's category has a group, and each group's total is the
  left-to-right sum of the converted costs of exactly the expenses of that category.
  The per-category totals, as accumulated and as displayed, add up to the sum of the
  individual converted costs, and so does the total, whenever none of the additions
  rounds: in exact arithmetic, and for any addition that is exact on the sums of
  subsequences of the converted costs, as the addition of the code is on whole
  amounts. The additions of the code round, and the sums are formed in different
  orders, so in general the two sides agree only up to that rounding.
\<close>

theorem category_totals_partition:
  assumes "\<forall>e \<in> set xs. exp_convertedCost e \<noteq> None"
  shows "distinct (map fst (categoryTotalsIn add xs))
       \<and> fst ` set (categoryTotalsIn add xs)
           = (\<lambda>e. case exp_category e of None \<Rightarrow> Other | Some k \<Rightarrow> k) ` set xs
       \<and> (\<forall>p \<in> set (categoryTotalsIn add xs).
            snd p = foldl add 0
              (map (\<lambda>e. money_value (the (exp_convertedCost e)))
                 (filter (\<lambda>e. (case exp_category e of None \<Rightarrow> Other | Some k \<Rightarrow> k) = fst p) xs)))
       \<and> sum_list (map snd (categoryTotalsIn (+) xs))
           = sum_list (map (\<lambda>e. money_value (the (exp_convertedCost e))) xs)
       \<and> sum_list (map snd (sortedCategoriesIn (+) xs))
           = sum_list (map (\<lambda>e. money_value (the (exp_convertedCost e))) xs)
       \<and> totalExpensesIn (+) xs
           = sum_list (map (\<lambda>e. money_value (the (exp_convertedCost e))) xs)
       \<and> ((\<forall>ys \<in> set (subseqs (map (\<lambda>e. money_value (the (exp_convertedCost e))) xs)).
             \<forall>zs \<in> set (subseqs (map (\<lambda>e. money_value (the (exp_convertedCost e))) xs)).
               add (sum_list ys) (sum_list zs) = sum_list ys + sum_list zs) \<longrightarrow>
            foldl add 0 (map snd (categoryTotalsIn add xs))
              = sum_list (map (\<lambda>e. money_value (the (exp_convertedCost e))) xs)
          \<and> foldl add 0 (map snd (sortedCategoriesIn add xs))
              = sum_list (map (\<lambda>e. money_value (the (exp_convertedCost e))) xs)
          \<and> totalExpensesIn add xs
              = sum_list (map (\<lambda>e. money_value (the (exp_convertedCost e))) xs))"
proof -
  let ?v = "\<lambda>e. money_value (the (exp_convertedCost e))"
  let ?tag = "\<lambda>e. case exp_category e of None \<Rightarrow> Other | Some k \<Rightarrow> k"
  have amounts: "map amountOf ys = map ?v ys" if "set ys \<subseteq> set xs" for ys
    by (rule map_cong) (use assms that in \<open>auto simp: amountOf_converted\<close>)
  have all: "map amountOf xs = map ?v xs"
    by (rule amounts) simp
  have tags: "distinct (map fst (categoryTotalsIn add xs))"
    by (simp add: categoryTotalsIn_groups comp_def distinct_encounterOrder)
  have cover: "fst ` set (categoryTotalsIn add xs) = ?tag ` set xs"
    by (simp add: categoryTotalsIn_groups image_image set_encounterOrder categoryOrOther_fun)
  have group: "snd p = foldl add 0 (map ?v (filter (\<lambda>e. ?tag e = fst p) xs))"
    if "p \<in> set (categoryTotalsIn add xs)" for p
  proof -
    from that have "snd p = foldl add 0 (map amountOf (filter (\<lambda>e. categoryOrOther e = fst p) xs))"
      by (auto simp: categoryTotalsIn_groups)
    also have "map amountOf (filter (\<lambda>e. categoryOrOther e = fst p) xs)
        = map ?v (filter (\<lambda>e. categoryOrOther e = fst p) xs)"
      by (rule amounts) simp
    finally show ?thesis
      by (simp add: categoryOrOther_fun)
  qed
  have sums: "foldl add 0 (map snd (categoryTotalsIn add xs)) = sum_list (map ?v xs)
      \<and> foldl add 0 (map snd (sortedCategoriesIn add xs)) = sum_list (map ?v xs)
      \<and> totalExpensesIn add xs = sum_list (map ?v xs)"
    if exact: "\<forall>ys \<in> set (subseqs (map ?v xs)). \<forall>zs \<in> set (subseqs (map ?v xs)).
        add (sum_list ys) (sum_list zs) = sum_list ys + sum_list zs"
    for add
  proof -
    have exact': "add (sum_list ys) (sum_list zs) = sum_list ys + sum_list zs"
      if "subseq ys (map amountOf xs)" and "subseq zs (map amountOf xs)" for ys zs
      using exact that by (simp add: all set_subseqs_eq)
    have "foldl add 0 (map snd (categoryTotalsIn add xs)) = sum_list (map amountOf xs)"
    proof (rule foldl_entries_exact [where add = add])
      show "mset (categoryTotalsIn add xs) = mset (categoryTotalsIn add xs)"
        by (rule refl)
    qed (rule exact')
    moreover have "foldl add 0 (map snd (sortedCategoriesIn add xs)) = sum_list (map amountOf xs)"
    proof (rule foldl_entries_exact [where add = add])
      show "mset (sortedCategoriesIn add xs) = mset (categoryTotalsIn add xs)"
        by (simp add: sortedCategoriesIn_def mset_js_sort)
    qed (rule exact')
    moreover have "foldl add 0 (map amountOf xs) = sum_list (map amountOf xs)"
    proof (rule foldl_subseq_exact [where add = add and vs = "map amountOf xs"])
      show "subseq (map amountOf xs) (map amountOf xs)"
        by simp
    qed (rule exact')
    then have "totalExpensesIn add xs = sum_list (map amountOf xs)"
      by (simp add: totalExpensesIn_def foldl_map)
    ultimately show ?thesis
      by (simp only: all)
  qed
  have "foldl (+) 0 (map snd (categoryTotalsIn (+) xs)) = sum_list (map ?v xs)
      \<and> foldl (+) 0 (map snd (sortedCategoriesIn (+) xs)) = sum_list (map ?v xs)
      \<and> totalExpensesIn (+) xs = sum_list (map ?v xs)"
    by (rule sums) simp
  then have exact_sums: "sum_list (map snd (categoryTotalsIn (+) xs)) = sum_list (map ?v xs)
      \<and> sum_list (map snd (sortedCategoriesIn (+) xs)) = sum_list (map ?v xs)
      \<and> totalExpensesIn (+) xs = sum_list (map ?v xs)"
    by (simp add: foldl_plus_exact)
  from tags cover group exact_sums sums [of add] show ?thesis
    by blast
qed

text \<open>
  With the addition of the code on the whole amounts 90, 50 and 90 no addition rounds,
  and all three sums are 230.
\<close>

theorem category_totals_partition_witness:
  "exp_convertedCost ex_A \<noteq> None \<and> exp_convertedCost ex_B \<noteq> None
   \<and> list_all (\<lambda>ys. list_all (\<lambda>zs. js_add (sum_list ys) (sum_list zs) = sum_list ys + sum_list zs)
        (subseqs [90, 50, 90])) (subseqs [90, 50, 90])
   \<and> categoryTotalsIn js_add [ex_A, ex_B, ex_A] = [(Food, 180), (Lodging, 50)]
   \<and> foldl js_add 0 (map snd (categoryTotalsIn js_add [ex_A, ex_B, ex_A])) = 230
   \<and> foldl js_add 0 (map snd (sortedCategoriesIn js_add [ex_A, ex_B, ex_A])) = 230
   \<and> totalExpensesIn js_add [ex_A, ex_B, ex_A] = 230"
proof -
  have converted: "exp_convertedCost ex_A \<noteq> None \<and> exp_convertedCost ex_B \<noteq> None"
    by (simp add: ex_A_def ex_B_def)
  have exact: "list_all (\<lambda>ys. list_all (\<lambda>zs. js_add (sum_list ys) (sum_list zs) = sum_list ys + sum_list zs)
      (subseqs [90, 50, 90])) (subseqs [90, 50, 90])"
    by code_simp
  have amounts: "map (\<lambda>e. money_value (the (exp_convertedCost e))) [ex_A, ex_B, ex_A] = [90, 50, 90]"
    by (simp add: ex_A_def ex_B_def)
  have entries: "categoryTotalsIn js_add [ex_A, ex_B, ex_A] = [(Food, 180), (Lodging, 50)]"
    by code_simp
  note claim = category_totals_partition [of "[ex_A, ex_B, ex_A]" js_add]
  from claim converted exact
  have "foldl js_add 0 (map snd (categoryTotalsIn js_add [ex_A, ex_B, ex_A])) = sum_list [90, 50, 90]
      \<and> foldl js_add 0 (map snd (sortedCategoriesIn js_add [ex_A, ex_B, ex_A])) = sum_list [90, 50, 90]
      \<and> totalExpensesIn js_add [ex_A, ex_B, ex_A] = sum_list [90, 50, 90]"
    unfolding amounts list_all_iff by simp
  with converted exact entries show ?thesis
    by simp
qed

text \<open>
  The claim as stated fails for the converted costs 0.1 (food), 0.2 (lodging) and 0.4
  (food): the category totals are 0.5 and 0.2 and add up to 0.7, while the total,
  accumulated in list order, is 0.7000000000000001.
\<close>

theorem category_totals_rounding_counterexample:
  "list_all (\<lambda>e. exp_convertedCost e \<noteq> None)
     [ex_spend ''a'' Food (js_round (1 / 10)), ex_spend ''b'' Lodging (js_round (2 / 10)),
      ex_spend ''c'' Food (js_round (4 / 10))]
   \<and> categoryTotalsIn js_add
     [ex_spend ''a'' Food (js_round (1 / 10)), ex_spend ''b'' Lodging (js_round (2 / 10)),
      ex_spend ''c'' Food (js_round (4 / 10))]
     = [(Food, 1 / 2), (Lodging, js_round (2 / 10))]
   \<and> foldl js_add 0 (map snd (categoryTotalsIn js_add
        [ex_spend ''a'' Food (js_round (1 / 10)), ex_spend ''b'' Lodging (js_round (2 / 10)),
         ex_spend ''c'' Food (js_round (4 / 10))]))
       = 3152519739159347 / 4503599627370496
   \<and> totalExpensesIn js_add
        [ex_spend ''a'' Food (js_round (1 / 10)), ex_spend ''b'' Lodging (js_round (2 / 10)),
         ex_spend ''c'' Food (js_round (4 / 10))]
       = 6305039478318695 / 9007199254740992
   \<and> js_round (7 / 10) = 3152519739159347 / 4503599627370496
   \<and> (3152519739159347 :: rat) / 4503599627370496 \<noteq> 6305039478318695 / 9007199254740992"
  by code_simp

text \<open>
  C5. The category aggregation groups the expenses by category: the accumulated
  object has one entry per category tag, in the order in which the tags are first
  encountered in the list it is given, an absent category counted under the tag
  \<open>other\<close>, each with the sum of the \<open>convertedCost.value\<close> of its expenses, added
  left to right from 0 (an absent converted cost adds 0), whatever the addition does
  to round. The displayed list holds the same entries in descending order of the
  summed amount, and entries with equal sums keep their encounter order.
\<close>

theorem category_aggregation:
  "categoryTotalsIn add xs =
     map (\<lambda>c. (c, foldl add 0
                    (map (\<lambda>e. case exp_convertedCost e of None \<Rightarrow> 0 | Some m \<Rightarrow> money_value m)
                       (filter (\<lambda>e. (case exp_category e of None \<Rightarrow> Other | Some k \<Rightarrow> k) = c) xs))))
       (encounterOrder (map (\<lambda>e. case exp_category e of None \<Rightarrow> Other | Some k \<Rightarrow> k) xs))
   \<and> mset (sortedCategoriesIn add xs) = mset (categoryTotalsIn add xs)
   \<and> sorted (rev (map snd (sortedCategoriesIn add xs)))
   \<and> (\<forall>v. filter (\<lambda>p. snd p = v) (sortedCategoriesIn add xs)
            = filter (\<lambda>p. snd p = v) (categoryTotalsIn add xs))"
proof -
  have groups: "categoryTotalsIn add xs =
      map (\<lambda>c. (c, foldl add 0
                     (map (\<lambda>e. case exp_convertedCost e of None \<Rightarrow> 0 | Some m \<Rightarrow> money_value m)
                        (filter (\<lambda>e. (case exp_category e of None \<Rightarrow> Other | Some k \<Rightarrow> k) = c) xs))))
        (encounterOrder (map (\<lambda>e. case exp_category e of None \<Rightarrow> Other | Some k \<Rightarrow> k) xs))"
    using categoryTotalsIn_groups [of add xs] by (simp only: amountOf_fun categoryOrOther_fun)
  have sk: "sortedCategoriesIn add xs = sort_key (\<lambda>p. - snd p) (categoryTotalsIn add xs)"
    by (rule sortedCategoriesIn_sort_key)
  have same: "mset (sortedCategoriesIn add xs) = mset (categoryTotalsIn add xs)"
    by (simp add: sk)
  have "sorted (map (\<lambda>p. - snd p) (sortedCategoriesIn add xs))"
    by (simp add: sk)
  then have "sorted_wrt (\<lambda>p q. snd q \<le> snd p) (sortedCategoriesIn add xs)"
    by (simp add: sorted_wrt_map)
  then have desc: "sorted (rev (map snd (sortedCategoriesIn add xs)))"
    by (simp add: sorted_wrt_rev sorted_wrt_map flip: rev_map)
  have stable: "filter (\<lambda>p. snd p = v) (sortedCategoriesIn add xs)
      = filter (\<lambda>p. snd p = v) (categoryTotalsIn add xs)" for v
    using sort_key_stable [of "\<lambda>p. - snd p" "- v" "categoryTotalsIn add xs"]
    by (simp add: sk)
  from groups same desc stable show ?thesis
    by blast
qed

text \<open>
  With the addition of the code: for lodging 0.3, food 0.1 and food 0.2 the food
  total is 0.30000000000000004 and food is listed first; for lodging 1, food 0.5 and
  food 0.5 the totals tie and lodging, encountered first, stays first.
\<close>

theorem category_aggregation_witness:
  "categoryTotalsIn js_add
     [ex_spend ''l'' Lodging (js_round (3 / 10)), ex_spend ''f'' Food (js_round (1 / 10)),
      ex_spend ''g'' Food (js_round (2 / 10))]
     = [(Lodging, 5404319552844595 / 18014398509481984),
        (Food, 1351079888211149 / 4503599627370496)]
   \<and> sortedCategoriesIn js_add
       [ex_spend ''l'' Lodging (js_round (3 / 10)), ex_spend ''f'' Food (js_round (1 / 10)),
        ex_spend ''g'' Food (js_round (2 / 10))]
     = [(Food, 1351079888211149 / 4503599627370496),
        (Lodging, 5404319552844595 / 18014398509481984)]
   \<and> sortedCategoriesIn js_add
       [ex_spend ''l'' Lodging 1, ex_spend ''f'' Food (1 / 2), ex_spend ''g'' Food (1 / 2)]
     = [(Lodging, 1), (Food, 1)]"
proof -
  let ?xs = "[ex_spend ''l'' Lodging (js_round (3 / 10)), ex_spend ''f'' Food (js_round (1 / 10)),
      ex_spend ''g'' Food (js_round (2 / 10))]"
  have "categoryTotalsIn js_add ?xs =
      map (\<lambda>c. (c, foldl js_add 0
                     (map (\<lambda>e. case exp_convertedCost e of None \<Rightarrow> 0 | Some m \<Rightarrow> money_value m)
                        (filter (\<lambda>e. (case exp_category e of None \<Rightarrow> Other | Some k \<Rightarrow> k) = c) ?xs))))
        (encounterOrder (map (\<lambda>e. case exp_category e of None \<Rightarrow> Other | Some k \<Rightarrow> k) ?xs))"
    using category_aggregation [of js_add ?xs] by blast
  also have "\<dots> = [(Lodging, 5404319552844595 / 18014398509481984),
      (Food, 1351079888211149 / 4503599627370496)]"
    by code_simp
  finally have totals: "categoryTotalsIn js_add ?xs =
      [(Lodging, 5404319552844595 / 18014398509481984),
       (Food, 1351079888211149 / 4503599627370496)]" .
  have ordered: "sortedCategoriesIn js_add ?xs =
      [(Food, 1351079888211149 / 4503599627370496),
       (Lodging, 5404319552844595 / 18014398509481984)]"
    by code_simp
  have tie: "sortedCategoriesIn js_add
      [ex_spend ''l'' Lodging 1, ex_spend ''f'' Food (1 / 2), ex_spend ''g'' Food (1 / 2)]
      = [(Lodging, 1), (Food, 1)]"
    by code_simp
  from totals ordered tie show ?thesis
    by (intro conjI)
qed



section \<open>Claims about saving an expense\<close>

lemma saveDisabled_iff:
  "saveDisabled st \<longleftrightarrow>
     name st = [] \<or> amount st = None \<or> amount st = Some 0 \<or> currency st = []"
  by (auto simp: saveDisabled_def falsyAmount_def split: option.splits)

lemma onSave_blocked: "saveDisabled st \<Longrightarrow> onSave js a tr u st = ([], st)"
  by (simp add: onSave_def saveDisabled_def)

lemma onSave_upload_rejected:
  assumes "\<not> saveDisabled st" and "uploadAttachments a (trip_id tr) (files st) = Inl err"
  shows "onSave js a tr u st =
           ([UploadAttachments (trip_id tr) (files st), saveFailed st err], st\<lparr>saving := False\<rparr>)"
  using assms by (simp add: onSave_def saveDisabled_def)

lemma onSave_call_rejected:
  assumes "\<not> saveDisabled st" and "uploadAttachments a (trip_id tr) (files st) = Inr ups"
    and "saveResponse a st (savePayload js tr st ups) = Inl err"
  shows "onSave js a tr u st =
           ([UploadAttachments (trip_id tr) (files st), saveCall st (savePayload js tr st ups),
             saveFailed st err], st\<lparr>saving := False\<rparr>)"
  using assms by (simp add: onSave_def saveDisabled_def Let_def)

lemma onSave_saved:
  assumes "\<not> saveDisabled st" and "uploadAttachments a (trip_id tr) (files st) = Inr ups"
    and "saveResponse a st (savePayload js tr st ups) = Inr saved"
  shows "onSave js a tr u st =
           ([UploadAttachments (trip_id tr) (files st), saveCall st (savePayload js tr st ups),
             InvalidateQueries ''listExpenses'' (trip_id tr),
             InvalidateQueries ''getTripAttachments'' (trip_id tr)],
            (closeModal tr u (st\<lparr>saving := True\<rparr>))\<lparr>saving := False\<rparr>)"
  using assms by (simp add: onSave_def saveDisabled_def Let_def)

lemma onSave_starts_with_upload:
  assumes "\<not> saveDisabled st"
  shows "\<exists>rest. fst (onSave js a tr u st) = UploadAttachments (trip_id tr) (files st) # rest"
proof (cases "uploadAttachments a (trip_id tr) (files st)")
  case (Inl err)
  then show ?thesis
    using assms by (simp add: onSave_upload_rejected)
next
  case (Inr ups)
  then show ?thesis
    using assms
    by (cases "saveResponse a st (savePayload js tr st ups)")
      (simp_all add: onSave_call_rejected onSave_saved)
qed

lemma onSave_issues_call:
  assumes "\<not> saveDisabled st" and "uploadAttachments a (trip_id tr) (files st) = Inr ups"
  shows "saveCall st (savePayload js tr st ups) \<in> set (fst (onSave js a tr u st))"
  using assms
  by (cases "saveResponse a st (savePayload js tr st ups)")
    (simp_all add: onSave_call_rejected onSave_saved)

text \<open>
  C1, as the code has it. The save operation proceeds exactly when the name is
  non-empty, the amount is a number other than 0 and a currency code is present: it
  then starts with the upload and, once the upload has succeeded, issues the create
  or update call. For every other input it is a no-op: no call is made, the state
  (the open modal included) is unchanged and the Save button is disabled.
\<close>

theorem save_guard:
  "(name st = [] \<or> amount st = None \<or> amount st = Some 0 \<or> currency st = [] \<longrightarrow>
      onSave js a tr u st = ([], st) \<and> saveDisabled st)
   \<and> (name st \<noteq> [] \<and> (\<exists>v. amount st = Some v \<and> v \<noteq> 0) \<and> currency st \<noteq> [] \<longrightarrow>
        \<not> saveDisabled st
      \<and> (\<exists>rest. fst (onSave js a tr u st) = UploadAttachments (trip_id tr) (files st) # rest)
      \<and> (\<forall>ups. uploadAttachments a (trip_id tr) (files st) = Inr ups \<longrightarrow>
            saveCall st (savePayload js tr st ups) \<in> set (fst (onSave js a tr u st))))"
proof (intro conjI impI)
  assume "name st = [] \<or> amount st = None \<or> amount st = Some 0 \<or> currency st = []"
  then have blocked: "saveDisabled st"
    by (simp add: saveDisabled_iff)
  then show "saveDisabled st" .
  from blocked show "onSave js a tr u st = ([], st)"
    by (rule onSave_blocked)
next
  assume "name st \<noteq> [] \<and> (\<exists>v. amount st = Some v \<and> v \<noteq> 0) \<and> currency st \<noteq> []"
  then have enabled: "\<not> saveDisabled st"
    by (auto simp: saveDisabled_iff)
  then show "\<not> saveDisabled st" .
  from enabled
  show "\<exists>rest. fst (onSave js a tr u st) = UploadAttachments (trip_id tr) (files st) # rest"
    by (rule onSave_starts_with_upload)
  from enabled
  show "\<forall>ups. uploadAttachments a (trip_id tr) (files st) = Inr ups \<longrightarrow>
      saveCall st (savePayload js tr st ups) \<in> set (fst (onSave js a tr u st))"
    by (simp add: onSave_issues_call)
qed

theorem save_guard_witness:
  "amount (ex_form\<lparr>amount := None\<rparr>) = None
   \<and> onSave ex_js api_ok ex_trip None (ex_form\<lparr>amount := None\<rparr>) = ([], ex_form\<lparr>amount := None\<rparr>)
   \<and> isModalOpen (ex_form\<lparr>amount := None\<rparr>)
   \<and> saveDisabled (ex_form\<lparr>amount := None\<rparr>)
   \<and> name ex_form = ''Dinner'' \<and> amount ex_form = Some 42 \<and> currency ex_form = ''EUR''
   \<and> \<not> saveDisabled ex_form
   \<and> (\<exists>rest. fst (onSave ex_js api_ok ex_trip None ex_form) = UploadAttachments ''trip1'' [] # rest)
   \<and> saveCall ex_form (savePayload ex_js ex_trip ex_form [])
        \<in> set (fst (onSave ex_js api_ok ex_trip None ex_form))"
  using save_guard [of "ex_form\<lparr>amount := None\<rparr>" ex_js api_ok ex_trip None]
    save_guard [of ex_form ex_js api_ok ex_trip None]
  by (simp add: ex_form_def ex_trip_def api_ok_def)

text \<open>
  The claim as stated fails for a negative amount: with the amount -5 the save
  proceeds, uploads and creates the expense.
\<close>

theorem save_negative_amount_counterexample:
  "amount (ex_form\<lparr>amount := Some (- 5)\<rparr>) = Some (- 5)
   \<and> \<not> (0 :: rat) < - 5
   \<and> fst (onSave ex_js api_ok ex_trip None (ex_form\<lparr>amount := Some (- 5)\<rparr>)) =
       [UploadAttachments ''trip1'' [],
        CreateExpense
          [(''name'', JStr ''Dinner''), (''trip'', JStr ''trip1''),
           (''cost'', JObj [(''value'', JNum (- 5)), (''currency'', JStr ''EUR'')]),
           (''occurredOn'', JUndefined), (''notes'', JUndefined),
           (''category'', JStr ''food''), (''attachmentReferences'', JArr [])],
        InvalidateQueries ''listExpenses'' ''trip1'',
        InvalidateQueries ''getTripAttachments'' ''trip1'']"
  by (simp add: onSave_def ex_form_def ex_js_def api_ok_def ex_trip_def falsyAmount_def
      savePayload_def saveCall_def saveResponse_def costJson_def numberOf_def)

text \<open>
  C8. When the guard passes and the upload or the repository call is rejected, the calls
  made are the upload, the repository call if the upload succeeded, and one error
  notification titled by the operation with the message to try again later: nothing
  is called twice. The state afterwards is the state before with \<open>saving\<close> reset: every
  form field keeps its value, the modal and the selection are as they were, and the
  Save button is enabled.
\<close>

theorem save_failure_keeps_form:
  assumes "\<not> saveDisabled st"
    and "uploadAttachments a (trip_id tr) (files st) = Inl err
         \<or> (\<exists>ups. uploadAttachments a (trip_id tr) (files st) = Inr ups
                \<and> saveResponse a st (savePayload js tr st ups) = Inl err)"
  shows "fst (onSave js a tr u st) =
           (case uploadAttachments a (trip_id tr) (files st) of
              Inl e \<Rightarrow> [UploadAttachments (trip_id tr) (files st), saveFailed st err]
            | Inr ups \<Rightarrow>
                [UploadAttachments (trip_id tr) (files st),
                 saveCall st (savePayload js tr st ups), saveFailed st err])
       \<and> saveFailed st err =
           ShowErrorNotification err
             (if selectedExpense st = None
              then T ''failed_to_create_expense'' ''Failed to create expense'' []
              else T ''failed_to_update_expense'' ''Failed to update expense'' [])
             (T ''try_again_later'' ''Please try again later.'' [])
       \<and> snd (onSave js a tr u st) = st\<lparr>saving := False\<rparr>
       \<and> name (snd (onSave js a tr u st)) = name st
       \<and> amount (snd (onSave js a tr u st)) = amount st
       \<and> currency (snd (onSave js a tr u st)) = currency st
       \<and> occurredOn (snd (onSave js a tr u st)) = occurredOn st
       \<and> notes_input (snd (onSave js a tr u st)) = notes_input st
       \<and> category (snd (onSave js a tr u st)) = category st
       \<and> files (snd (onSave js a tr u st)) = files st
       \<and> existingAttachments (snd (onSave js a tr u st)) = existingAttachments st
       \<and> isModalOpen (snd (onSave js a tr u st)) = isModalOpen st
       \<and> selectedExpense (snd (onSave js a tr u st)) = selectedExpense st
       \<and> \<not> saveDisabled (snd (onSave js a tr u st))"
proof -
  have title: "saveFailed st err =
      ShowErrorNotification err
        (if selectedExpense st = None
         then T ''failed_to_create_expense'' ''Failed to create expense'' []
         else T ''failed_to_update_expense'' ''Failed to update expense'' [])
        (T ''try_again_later'' ''Please try again later.'' [])"
    by (simp add: saveFailed_def split: option.splits)
  have enabled: "\<not> saveDisabled (st\<lparr>saving := False\<rparr>)"
    using assms(1) by (simp add: saveDisabled_def)
  from assms(2) show ?thesis
  proof
    assume rejected: "uploadAttachments a (trip_id tr) (files st) = Inl err"
    show ?thesis
      using title enabled
      by (simp add: onSave_upload_rejected [OF assms(1) rejected] rejected)
  next
    assume "\<exists>ups. uploadAttachments a (trip_id tr) (files st) = Inr ups
        \<and> saveResponse a st (savePayload js tr st ups) = Inl err"
    then obtain ups where uploaded: "uploadAttachments a (trip_id tr) (files st) = Inr ups"
      and rejected: "saveResponse a st (savePayload js tr st ups) = Inl err"
      by blast
    show ?thesis
      using title enabled
      by (simp add: onSave_call_rejected [OF assms(1) uploaded rejected] uploaded)
  qed
qed

theorem save_failure_keeps_form_witness:
  "\<not> saveDisabled ex_form
   \<and> uploadAttachments api_down ''trip1'' [] = Inl (Rejected ''upload'')
   \<and> fst (onSave ex_js api_down ex_trip None ex_form) =
       [UploadAttachments ''trip1'' [],
        ShowErrorNotification (Rejected ''upload'')
          (T ''failed_to_create_expense'' ''Failed to create expense'' [])
          (T ''try_again_later'' ''Please try again later.'' [])]
   \<and> snd (onSave ex_js api_down ex_trip None ex_form) = ex_form
   \<and> uploadAttachments (api_down\<lparr>uploadAttachments := \<lambda>t fs. Inr []\<rparr>) ''trip1'' [] = Inr []
   \<and> fst (onSave ex_js (api_down\<lparr>uploadAttachments := \<lambda>t fs. Inr []\<rparr>) ex_trip None ex_edit) =
       [UploadAttachments ''trip1'' [],
        UpdateExpense ''a'' (savePayload ex_js ex_trip ex_edit []),
        ShowErrorNotification (Rejected ''update'')
          (T ''failed_to_update_expense'' ''Failed to update expense'' [])
          (T ''try_again_later'' ''Please try again later.'' [])]
   \<and> snd (onSave ex_js (api_down\<lparr>uploadAttachments := \<lambda>t fs. Inr []\<rparr>) ex_trip None ex_edit)
       = ex_edit"
  using save_failure_keeps_form [of ex_form api_down ex_trip "Rejected ''upload''" ex_js None]
    save_failure_keeps_form [of ex_edit "api_down\<lparr>uploadAttachments := \<lambda>t fs. Inr []\<rparr>"
      ex_trip "Rejected ''update''" ex_js None]
  by (simp add: ex_form_def ex_edit_def openModalForEdit_def ex_A_def raw_A_def ex_trip_def
      api_down_def saveDisabled_def falsyAmount_def saveResponse_def saveCall_def saveFailed_def)

section \<open>Claims about what is persisted\<close>

lemma allKeys_strings [simp]: "allKeys (JArr (map JStr ids)) = []"
  by (induction ids) auto

lemma savePayload_keys:
  "set (allKeys (JObj (savePayload js tr st ups))) =
     {''name'', ''trip'', ''cost'', ''value'', ''currency'', ''occurredOn'', ''notes'',
      ''category'', ''attachmentReferences''}"
  by (auto simp: savePayload_def costJson_def Let_def split: option.splits)

lemma savePayload_cost:
  "map_of (savePayload js tr st ups) ''cost''
     = Some (costJson (numberOf (amount st)) (currency st))"
  by (simp add: savePayload_def Let_def)

lemma onSave_events:
  assumes "ev \<in> set (fst (onSave js a tr u st))" and "expensePayload ev = Some p"
  shows "\<exists>ups. p = savePayload js tr st ups \<and> \<not> saveDisabled st"
proof (cases "saveDisabled st")
  case True
  then show ?thesis
    using assms by (simp add: onSave_blocked)
next
  case enabled: False
  show ?thesis
  proof (cases "uploadAttachments a (trip_id tr) (files st)")
    case (Inl err)
    then show ?thesis
      using assms enabled by (auto simp: onSave_upload_rejected saveFailed_def)
  next
    case (Inr ups)
    then show ?thesis
      using assms enabled
      by (cases "saveResponse a st (savePayload js tr st ups)")
        (auto simp: onSave_call_rejected onSave_saved saveFailed_def saveCall_def
          split: option.splits)
  qed
qed

lemma expenseData_keys:
  "set (allKeys (JObj (expenseData js tr values origin destination c))) =
     {''name'', ''trip'', ''cost'', ''value'', ''currency'', ''occurredOn'', ''category''}"
  by (auto simp: expenseData_def costJson_def)

lemma positiveCost_Some: "positiveCost values = Some c \<Longrightarrow> v_cost values = Some c \<and> 0 < c"
  by (auto simp: positiveCost_def split: option.splits if_splits)

lemma syncExpense_events:
  assumes "ev \<in> set (fst (syncExpense js a tr t em values))" and "expensePayload ev = Some p"
  shows "\<exists>c. v_cost values = Some c \<and> 0 < c
           \<and> map_of p ''cost'' = Some (costJson c (v_currencyCode values))
           \<and> ''convertedCost'' \<notin> set (allKeys (JObj p))"
proof (cases "positiveCost values")
  case None
  then show ?thesis
    using assms by (auto simp: syncExpense_def Let_def split: option.splits)
next
  case (Some c)
  note cost = positiveCost_Some [OF Some]
  have "p = [(''cost'', costJson c (v_currencyCode values))]
      \<or> (\<exists>origin destination. p = expenseData js tr values origin destination c)"
    using assms Some
    by (auto simp: syncExpense_def Let_def split: option.splits if_splits prod.splits)
  then show ?thesis
  proof
    assume "p = [(''cost'', costJson c (v_currencyCode values))]"
    then show ?thesis
      using cost by (simp add: costJson_def)
  next
    assume "\<exists>origin destination. p = expenseData js tr values origin destination c"
    then obtain origin destination where p: "p = expenseData js tr values origin destination c"
      by blast
    have "map_of p ''cost'' = Some (costJson c (v_currencyCode values))"
      by (simp add: p expenseData_def)
    moreover have "''convertedCost'' \<notin> set (allKeys (JObj p))"
      unfolding p expenseData_keys by simp
    ultimately show ?thesis
      using cost by simp
  qed
qed

lemma saveTransportation_events:
  "ev \<in> set (fst (saveTransportation a t ex atts i p)) \<Longrightarrow> expensePayload ev = None"
  by (auto simp: saveTransportation_def Let_def split: option.splits if_splits)

lemma handleFormSubmit_events:
  assumes "ev \<in> set (fst (handleFormSubmit js a tr t ex em fs values))"
    and "expensePayload ev = Some p"
  shows "ev \<in> set (fst (syncExpense js a tr t em values))"
proof (cases "uploadAttachments a (trip_id tr) fs")
  case (Inl err)
  then show ?thesis
    using assms by (auto simp: handleFormSubmit_def submitFailed_def)
next
  case (Inr atts)
  obtain calls res where sync: "syncExpense js a tr t em values = (calls, res)"
    by (cases "syncExpense js a tr t em values")
  show ?thesis
  proof (cases res)
    case (Inl err)
    then show ?thesis
      using assms Inr sync by (auto simp: handleFormSubmit_def submitFailed_def)
  next
    case res: (Inr expenseId)
    show ?thesis
    proof (cases "v_origin values")
      case None
      then show ?thesis
        using assms Inr sync res by (auto simp: handleFormSubmit_def submitFailed_def)
    next
      case origin: (Some origin)
      show ?thesis
      proof (cases "v_destination values")
        case None
        then show ?thesis
          using assms Inr sync res origin by (auto simp: handleFormSubmit_def submitFailed_def)
      next
        case destination: (Some destination)
        obtain saves r t2 where save:
          "saveTransportation a t ex atts expenseId
             (transportationPayload js tr values origin destination) = (saves, r, t2)"
          by (cases "saveTransportation a t ex atts expenseId
             (transportationPayload js tr values origin destination)")
        have "ev' \<in> set saves \<Longrightarrow> expensePayload ev' = None" for ev'
          using saveTransportation_events
            [of ev' a t ex atts expenseId "transportationPayload js tr values origin destination"]
          by (simp add: save)
        then have "ev \<notin> set saves"
          using assms(2) by auto
        then show ?thesis
          using assms Inr sync res origin destination save
          by (cases r) (auto simp: handleFormSubmit_def submitFailed_def)
      qed
    qed
  qed
qed

text \<open>
  C3. Every create or update payload the expenses panel sends to the expense
  repository has as its cost the object \<open>{ value, currency }\<close> holding exactly the
  amount and the currency of the form, and every one the flight form sends holds the
  cost and the currency code entered there; no payload has a key \<open>convertedCost\<close> at
  any depth. Opening an expense for editing loads its stored cost, not its converted
  cost, into the form.
\<close>

theorem persisted_cost_is_entered_cost:
  "(\<forall>ev \<in> set (fst (onSave js a tr u st)). \<forall>p. expensePayload ev = Some p \<longrightarrow>
       (\<exists>v. amount st = Some v
          \<and> map_of p ''cost'' = Some (JObj [(''value'', JNum v), (''currency'', JStr (currency st))]))
     \<and> ''convertedCost'' \<notin> set (allKeys (JObj p)))
   \<and> (\<forall>ev \<in> set (fst (handleFormSubmit js a tr t ex em fs vals)). \<forall>p.
        expensePayload ev = Some p \<longrightarrow>
          (\<exists>c. v_cost vals = Some c
             \<and> map_of p ''cost''
                 = Some (JObj [(''value'', JNum c), (''currency'', JStr (v_currencyCode vals))]))
        \<and> ''convertedCost'' \<notin> set (allKeys (JObj p)))
   \<and> (exp_cost e = Some m \<and> money_value m \<noteq> 0 \<and> money_currency m \<noteq> [] \<longrightarrow>
        amount (openModalForEdit tr u tas e st') = Some (money_value m)
      \<and> currency (openModalForEdit tr u tas e st') = money_currency m)"
proof (intro conjI ballI allI impI)
  fix ev p
  assume "ev \<in> set (fst (onSave js a tr u st))" and "expensePayload ev = Some p"
  then obtain ups where p: "p = savePayload js tr st ups" and enabled: "\<not> saveDisabled st"
    using onSave_events by blast
  from enabled obtain v where "amount st = Some v"
    by (auto simp: saveDisabled_iff)
  then show "\<exists>v. amount st = Some v
      \<and> map_of p ''cost'' = Some (JObj [(''value'', JNum v), (''currency'', JStr (currency st))])"
    by (simp add: p savePayload_cost numberOf_def costJson_def)
  show "''convertedCost'' \<notin> set (allKeys (JObj p))"
    unfolding p savePayload_keys by simp
next
  fix ev p
  assume "ev \<in> set (fst (handleFormSubmit js a tr t ex em fs vals))"
    and payload: "expensePayload ev = Some p"
  then have "ev \<in> set (fst (syncExpense js a tr t em vals))"
    by (rule handleFormSubmit_events)
  from syncExpense_events [OF this payload]
  show "\<exists>c. v_cost vals = Some c
      \<and> map_of p ''cost'' = Some (JObj [(''value'', JNum c), (''currency'', JStr (v_currencyCode vals))])"
    and "''convertedCost'' \<notin> set (allKeys (JObj p))"
    by (auto simp: costJson_def)
next
  assume "exp_cost e = Some m \<and> money_value m \<noteq> 0 \<and> money_currency m \<noteq> []"
  then show "amount (openModalForEdit tr u tas e st') = Some (money_value m)"
    and "currency (openModalForEdit tr u tas e st') = money_currency m"
    by (simp_all add: openModalForEdit_def Let_def)
qed

text \<open>
  Editing expense A, stored as 100 USD and displayed as 90 EUR, and saving it sends
  100 USD; the flight form sends the 420 USD entered.
\<close>

theorem persisted_cost_is_entered_cost_witness:
  "exp_cost ex_A = Some \<lparr>money_value = 100, money_currency = ''USD''\<rparr>
   \<and> exp_convertedCost ex_A = Some \<lparr>money_value = 90, money_currency = ''EUR''\<rparr>
   \<and> amount ex_edit = Some 100 \<and> currency ex_edit = ''USD''
   \<and> fst (onSave ex_js api_ok ex_trip None ex_edit) =
       [UploadAttachments ''trip1'' [],
        UpdateExpense ''a''
          [(''name'', JStr ''A''), (''trip'', JStr ''trip1''),
           (''cost'', JObj [(''value'', JNum 100), (''currency'', JStr ''USD'')]),
           (''occurredOn'', JStr ''2024-05-02''), (''notes'', JUndefined),
           (''category'', JStr ''food''), (''attachmentReferences'', JArr [])],
        InvalidateQueries ''listExpenses'' ''trip1'',
        InvalidateQueries ''getTripAttachments'' ''trip1'']
   \<and> v_cost ex_values = Some 420 \<and> v_currencyCode ex_values = ''USD''
   \<and> fst (handleFormSubmit ex_js api_ok ex_trip None None None [] ex_values) =
       [UploadAttachments ''trip1'' [],
        CreateExpense
          [(''name'', JStr ''Flight: SFO to Tokyo''), (''trip'', JStr ''trip1''),
           (''cost'', JObj [(''value'', JNum 420), (''currency'', JStr ''USD'')]),
           (''occurredOn'', JStr ''2024-05-02T10:00''), (''category'', JStr ''transportation'')],
        CreateTransportationEntry
          (transportationPayload ex_js ex_trip ex_values
             (Airport ''SFO'' (JObj [(''iataCode'', JStr ''SFO'')])) (PlaceText ''Tokyo'')
           @ [(''attachmentReferences'', JArr []), (''expenseId'', JStr ''a'')]),
        OnSuccess]
   \<and> ''convertedCost'' \<notin> set (allKeys (JObj
          [(''name'', JStr ''A''), (''trip'', JStr ''trip1''),
           (''cost'', JObj [(''value'', JNum 100), (''currency'', JStr ''USD'')]),
           (''occurredOn'', JStr ''2024-05-02''), (''notes'', JUndefined),
           (''category'', JStr ''food''), (''attachmentReferences'', JArr [])]))
   \<and> ''convertedCost'' \<notin> set (allKeys (JObj
          [(''name'', JStr ''Flight: SFO to Tokyo''), (''trip'', JStr ''trip1''),
           (''cost'', JObj [(''value'', JNum 420), (''currency'', JStr ''USD'')]),
           (''occurredOn'', JStr ''2024-05-02T10:00''), (''category'', JStr ''transportation'')]))"
proof -
  let ?p = "[(''name'', JStr ''A''), (''trip'', JStr ''trip1''),
      (''cost'', JObj [(''value'', JNum 100), (''currency'', JStr ''USD'')]),
      (''occurredOn'', JStr ''2024-05-02''), (''notes'', JUndefined),
      (''category'', JStr ''food''), (''attachmentReferences'', JArr [])]"
  let ?d = "[(''name'', JStr ''Flight: SFO to Tokyo''), (''trip'', JStr ''trip1''),
      (''cost'', JObj [(''value'', JNum 420), (''currency'', JStr ''USD'')]),
      (''occurredOn'', JStr ''2024-05-02T10:00''), (''category'', JStr ''transportation'')]"
  note claim = persisted_cost_is_entered_cost
    [where js = ex_js and a = api_ok and tr = ex_trip and u = None and st = ex_edit
       and t = None and ex = None and em = None and fs = "[]" and vals = ex_values
       and e = ex_A and m = "\<lparr>money_value = 100, money_currency = ''USD''\<rparr>"
       and tas = None and st' = ex_form]
  have cost: "exp_cost ex_A = Some \<lparr>money_value = 100, money_currency = ''USD''\<rparr>"
    and converted: "exp_convertedCost ex_A = Some \<lparr>money_value = 90, money_currency = ''EUR''\<rparr>"
    by (simp_all add: ex_A_def raw_A_def)
  have form: "amount ex_edit = Some 100 \<and> currency ex_edit = ''USD''"
    using claim cost by (simp add: ex_edit_def)
  have saved: "fst (onSave ex_js api_ok ex_trip None ex_edit) =
      [UploadAttachments ''trip1'' [], UpdateExpense ''a'' ?p,
       InvalidateQueries ''listExpenses'' ''trip1'',
       InvalidateQueries ''getTripAttachments'' ''trip1'']"
    by (simp add: onSave_def ex_edit_def openModalForEdit_def ex_A_def raw_A_def api_ok_def
        ex_trip_def ex_form_def ex_js_def falsyAmount_def saveResponse_def saveCall_def
        savePayload_def costJson_def numberOf_def Let_def)
  have entered: "v_cost ex_values = Some 420 \<and> v_currencyCode ex_values = ''USD''"
    by (simp add: ex_values_def)
  have created: "fst (handleFormSubmit ex_js api_ok ex_trip None None None [] ex_values) =
      [UploadAttachments ''trip1'' [], CreateExpense ?d,
       CreateTransportationEntry
         (transportationPayload ex_js ex_trip ex_values
            (Airport ''SFO'' (JObj [(''iataCode'', JStr ''SFO'')])) (PlaceText ''Tokyo'')
          @ [(''attachmentReferences'', JArr []), (''expenseId'', JStr ''a'')]),
       OnSuccess]"
    by (simp add: handleFormSubmit_def syncExpense_def linkedExpenseId_def positiveCost_def
        saveTransportation_def expenseData_def placeText_def costJson_def api_ok_def
        ex_values_def ex_trip_def ex_js_def raw_A_def Let_def)
  have "UpdateExpense ''a'' ?p \<in> set (fst (onSave ex_js api_ok ex_trip None ex_edit))"
    and "expensePayload (UpdateExpense ''a'' ?p) = Some ?p"
    by (simp_all add: saved)
  with claim have panel: "''convertedCost'' \<notin> set (allKeys (JObj ?p))"
    by blast
  have "CreateExpense ?d
      \<in> set (fst (handleFormSubmit ex_js api_ok ex_trip None None None [] ex_values))"
    and "expensePayload (CreateExpense ?d) = Some ?d"
    by (simp_all add: created)
  with claim have flight: "''convertedCost'' \<notin> set (allKeys (JObj ?d))"
    by blast
  from cost converted form saved entered created panel flight show ?thesis
    by (intro conjI) simp_all
qed

section \<open>Claims about deleting an expense\<close>

text \<open>
  C7, as the code has it. The delete call is issued only when an expense is selected
  and the user has confirmed in the dialog that names it; the dialog comes first.
  On confirmation the handler schedules the delete, shows the deletion notification
  and closes the modal at once: the acknowledgment precedes the delete call, and the
  state left is the closed, reset modal whatever the call does, so a rejected call is
  not thrown to the caller. The call is made next, and when it resolves the expense
  list query is invalidated. Cancelling the dialog, or having no selection, issues no
  call and leaves the state as it was.
\<close>

theorem delete_after_confirmation:
  "(DeleteExpense i \<in> set (fst (handleDelete a tr u choice st)) \<longrightarrow>
      choice = ConfirmClicked
    \<and> (\<exists>sel rest. selectedExpense st = Some sel \<and> i = exp_id sel
         \<and> fst (handleDelete a tr u choice st)
             = confirmDialog sel # deletedNotification sel # DeleteExpense i # rest))
   \<and> confirmDialog sel =
       OpenConfirmModal (T ''delete_expense'' ''Delete Expense'' [])
         (T ''expense_deletion_confirmation''
            (''Deleting '' @ [CHR 0x22] @ ''{{name}}'' @ [CHR 0x22]
               @ ''. This action cannot be undone.'')
            [(''name'', exp_name sel)])
   \<and> onConfirm tr u sel st = ([deletedNotification sel], closeModal tr u st, exp_id sel)
   \<and> (selectedExpense st = Some sel \<longrightarrow>
        (\<exists>rest. fst (handleDelete a tr u ConfirmClicked st) =
           [confirmDialog sel, deletedNotification sel, DeleteExpense (exp_id sel)] @ rest)
      \<and> snd (handleDelete a tr u ConfirmClicked st) = closeModal tr u st
      \<and> \<not> isModalOpen (snd (handleDelete a tr u ConfirmClicked st))
      \<and> selectedExpense (snd (handleDelete a tr u ConfirmClicked st)) = None
      \<and> handleDelete a tr u CancelClicked st = ([confirmDialog sel], st))
   \<and> (selectedExpense st = Some sel \<and> deleteExpense a (exp_id sel) = Inr () \<longrightarrow>
        fst (handleDelete a tr u ConfirmClicked st) =
          [confirmDialog sel, deletedNotification sel, DeleteExpense (exp_id sel),
           InvalidateQueries ''listExpenses'' (trip_id tr)])
   \<and> (selectedExpense st = None \<longrightarrow> handleDelete a tr u choice st = ([], st))"
proof -
  have issued: "choice = ConfirmClicked
      \<and> (\<exists>sel rest. selectedExpense st = Some sel \<and> i = exp_id sel
           \<and> fst (handleDelete a tr u choice st)
               = confirmDialog sel # deletedNotification sel # DeleteExpense i # rest)"
    if "DeleteExpense i \<in> set (fst (handleDelete a tr u choice st))"
    using that
    by (cases choice; cases "selectedExpense st")
      (auto simp: handleDelete_def onConfirm_def removeExpense_def confirmDialog_def
        deletedNotification_def split: sum.splits)
  have handler: "onConfirm tr u sel st = ([deletedNotification sel], closeModal tr u st, exp_id sel)"
    by (simp add: onConfirm_def)
  have confirmed: "(\<exists>rest. fst (handleDelete a tr u ConfirmClicked st) =
        [confirmDialog sel, deletedNotification sel, DeleteExpense (exp_id sel)] @ rest)
      \<and> snd (handleDelete a tr u ConfirmClicked st) = closeModal tr u st
      \<and> \<not> isModalOpen (snd (handleDelete a tr u ConfirmClicked st))
      \<and> selectedExpense (snd (handleDelete a tr u ConfirmClicked st)) = None
      \<and> handleDelete a tr u CancelClicked st = ([confirmDialog sel], st)"
    if "selectedExpense st = Some sel"
    using that
    by (simp add: handleDelete_def onConfirm_def removeExpense_def closeModal_def resetForm_def)
  have resolved: "fst (handleDelete a tr u ConfirmClicked st) =
      [confirmDialog sel, deletedNotification sel, DeleteExpense (exp_id sel),
       InvalidateQueries ''listExpenses'' (trip_id tr)]"
    if "selectedExpense st = Some sel \<and> deleteExpense a (exp_id sel) = Inr ()"
    using that by (simp add: handleDelete_def onConfirm_def removeExpense_def)
  have unselected: "handleDelete a tr u choice st = ([], st)" if "selectedExpense st = None"
    using that by (simp add: handleDelete_def)
  have dialog: "confirmDialog sel =
      OpenConfirmModal (T ''delete_expense'' ''Delete Expense'' [])
        (T ''expense_deletion_confirmation''
           (''Deleting '' @ [CHR 0x22] @ ''{{name}}'' @ [CHR 0x22]
              @ ''. This action cannot be undone.'')
           [(''name'', exp_name sel)])"
    by (simp add: confirmDialog_def)
  from issued handler confirmed resolved unselected dialog show ?thesis
    by blast
qed

theorem delete_after_confirmation_witness:
  "selectedExpense ex_edit = Some ex_A \<and> deleteExpense api_ok (exp_id ex_A) = Inr ()
   \<and> DeleteExpense ''a'' \<in> set (fst (handleDelete api_ok ex_trip None ConfirmClicked ex_edit))
   \<and> fst (handleDelete api_ok ex_trip None ConfirmClicked ex_edit) =
       [confirmDialog ex_A, deletedNotification ex_A, DeleteExpense ''a'',
        InvalidateQueries ''listExpenses'' ''trip1'']
   \<and> \<not> isModalOpen (snd (handleDelete api_ok ex_trip None ConfirmClicked ex_edit))
   \<and> handleDelete api_ok ex_trip None CancelClicked ex_edit = ([confirmDialog ex_A], ex_edit)
   \<and> selectedExpense ex_form = None
   \<and> handleDelete api_ok ex_trip None ConfirmClicked ex_form = ([], ex_form)"
  using delete_after_confirmation
      [of "''a''" api_ok ex_trip None ConfirmClicked ex_edit ex_A]
    delete_after_confirmation
      [of "''a''" api_ok ex_trip None ConfirmClicked ex_form ex_A]
  by (simp add: ex_edit_def openModalForEdit_def ex_form_def ex_A_def raw_A_def api_ok_def
      ex_trip_def closeModal_def resetForm_def)

text \<open>
  The claim as stated fails: the notification that the expense has been deleted is
  shown before the delete call is made, not on its completion, and when the call is
  rejected nothing reports the failure.
\<close>

theorem delete_rejected_counterexample:
  "deleteExpense api_down ''a'' = Inl (Rejected ''delete'')
   \<and> fst (handleDelete api_down ex_trip None ConfirmClicked ex_edit) =
       [OpenConfirmModal (T ''delete_expense'' ''Delete Expense'' [])
          (T ''expense_deletion_confirmation''
             (''Deleting '' @ [CHR 0x22] @ ''{{name}}'' @ [CHR 0x22]
                @ ''. This action cannot be undone.'')
             [(''name'', ''A'')]),
        ShowDeleteNotification (T ''expenses'' ''Expenses'' [])
          (T ''expense_deleted'' ''Expense {{name}} has been deleted'' [(''name'', ''A'')]),
        DeleteExpense ''a'']"
  by (simp add: handleDelete_def onConfirm_def removeExpense_def confirmDialog_def
      deletedNotification_def ex_edit_def openModalForEdit_def ex_form_def ex_A_def raw_A_def
      api_down_def)

section \<open>Claims about an expense without a conversion rate\<close>

lemma convertExpense_no_rate:
  assumes "exp_cost e = Some c" and "money_currency c \<noteq> target"
    and "findRate rates (money_currency c) target = None"
  shows "convertExpense rates target e = e"
  using assms by (simp add: convertExpense_def)

lemma amountOf_unconverted: "exp_convertedCost e = None \<Longrightarrow> amountOf e = 0"
  by (simp add: amountOf_def)

lemma total_without_unconverted:
  assumes "amountOf e = 0"
  shows "totalExpenses (sortedExpenses lc gt sb sd (xs @ e # ys))
           = totalExpenses (sortedExpenses lc gt sb sd (xs @ ys))"
proof -
  have "sum_list (map amountOf (sortedExpenses lc gt sb sd zs)) = sum_list (map amountOf zs)"
    for zs
    by (rule sum_list_amount_mset) (rule mset_sortedExpenses)
  then show ?thesis
    using assms by (simp add: totalExpenses_sum)
qed

lemma groups_without_unconverted:
  assumes "amountOf e = 0"
  shows "getOr0 (categoryTotals (sortedExpenses lc gt sb sd (xs @ e # ys))) k
           = getOr0 (categoryTotals (sortedExpenses lc gt sb sd (xs @ ys))) k"
proof -
  have "sum_list (map amountOf (filter P (sortedExpenses lc gt sb sd zs)))
      = sum_list (map amountOf (filter P zs))" for P zs
    by (rule sum_list_amount_mset) (simp add: mset_sortedExpenses)
  then show ?thesis
    using assms by (simp add: getOr0_categoryTotals)
qed

lemma card_without_amount:
  "exp_convertedCost e = None \<Longrightarrow> AmountRow v cur \<notin> set (card_rows (expenseCard js m e))"
  by (auto simp: expenseCard_def split: option.splits)

text \<open>
  C2, as the code has it. When no rate is found for an expense whose currency is not
  the display currency, the conversion leaves the expense as it is, so its converted
  cost stays absent. An expense without a converted cost adds nothing to the
  converted total or to any category's total, wherever it stands in the list; and it
  still has its card in the rendered list, with its name and category, but the card
  has no amount row: the amount row shows the converted cost only, and the original
  cost is not rendered.
\<close>

theorem missing_rate_expense:
  assumes "exp_convertedCost e = None"
  shows "(exp_cost e = Some c \<and> money_currency c \<noteq> defaultCurrency tr u
          \<and> findRate rates (money_currency c) (defaultCurrency tr u) = None \<longrightarrow>
            convertExpense rates (defaultCurrency tr u) e = e
          \<and> exp_convertedCost (convertExpense rates (defaultCurrency tr u) e) = None)
       \<and> totalExpenses (sortedExpenses lc gt sb sd (xs @ e # ys))
           = totalExpenses (sortedExpenses lc gt sb sd (xs @ ys))
       \<and> (\<forall>k. getOr0 (categoryTotals (sortedExpenses lc gt sb sd (xs @ e # ys))) k
              = getOr0 (categoryTotals (sortedExpenses lc gt sb sd (xs @ ys))) k)
       \<and> expenseCard js (expenseAttachmentsMap tas (xs @ e # ys)) e
           \<in> set (expenseCards js tas (xs @ e # ys) (sortedExpenses lc gt sb sd (xs @ e # ys)))
       \<and> card_title (expenseCard js m e) = exp_name e
       \<and> CategoryRow (category_label (categoryOrOther e)) \<in> set (card_rows (expenseCard js m e))
       \<and> (\<forall>v cur. AmountRow v cur \<notin> set (card_rows (expenseCard js m e)))"
proof -
  have skipped: "convertExpense rates (defaultCurrency tr u) e = e
      \<and> exp_convertedCost (convertExpense rates (defaultCurrency tr u) e) = None"
    if "exp_cost e = Some c \<and> money_currency c \<noteq> defaultCurrency tr u
        \<and> findRate rates (money_currency c) (defaultCurrency tr u) = None"
    using that assms by (simp add: convertExpense_no_rate)
  have zero: "amountOf e = 0"
    using assms by (rule amountOf_unconverted)
  have "e \<in> set (sortedExpenses lc gt sb sd (xs @ e # ys))"
    by (simp add: set_sortedExpenses)
  then have shown: "expenseCard js (expenseAttachmentsMap tas (xs @ e # ys)) e
      \<in> set (expenseCards js tas (xs @ e # ys) (sortedExpenses lc gt sb sd (xs @ e # ys)))"
    by (auto simp: expenseCards_def)
  have rows: "CategoryRow (category_label (categoryOrOther e)) \<in> set (card_rows (expenseCard js m e))"
    and title: "card_title (expenseCard js m e) = exp_name e"
    by (simp_all add: expenseCard_def)
  from skipped shown rows title total_without_unconverted [OF zero, of lc gt sb sd xs ys]
    groups_without_unconverted [OF zero, of lc gt sb sd xs ys] card_without_amount [OF assms]
  show ?thesis
    by blast
qed

theorem missing_rate_expense_witness:
  "exp_convertedCost raw_C = None
   \<and> exp_cost raw_C = Some \<lparr>money_value = 30, money_currency = ''JPY''\<rparr>
   \<and> ''JPY'' \<noteq> defaultCurrency ex_trip None
   \<and> findRate ex_rates ''JPY'' (defaultCurrency ex_trip None) = None
   \<and> convertExpense ex_rates (defaultCurrency ex_trip None) raw_C = raw_C
   \<and> totalExpenses (sortedExpenses (\<lambda>a b. 0) (\<lambda>s. 0) None Asc [ex_A, raw_C, ex_B])
       = totalExpenses (sortedExpenses (\<lambda>a b. 0) (\<lambda>s. 0) None Asc [ex_A, ex_B])
   \<and> expenseCard ex_js (expenseAttachmentsMap None [ex_A, raw_C, ex_B]) raw_C
       \<in> set (expenseCards ex_js None [ex_A, raw_C, ex_B]
             (sortedExpenses (\<lambda>a b. 0) (\<lambda>s. 0) None Asc [ex_A, raw_C, ex_B]))
   \<and> card_title (expenseCard ex_js Map.empty raw_C) = ''C''"
  using missing_rate_expense
    [where e = raw_C and c = "\<lparr>money_value = 30, money_currency = ''JPY''\<rparr>" and tr = ex_trip
       and u = None and rates = ex_rates and xs = "[ex_A]" and ys = "[ex_B]"
       and lc = "\<lambda>a b. 0" and gt = "\<lambda>s. 0" and sb = None and sd = Asc and js = ex_js
       and m = Map.empty and tas = None]
  by (simp add: raw_C_def ex_trip_def ex_rates_def defaultCurrency_def findRate_def)

text \<open>
  The claim as stated fails in the spec's own scenario: the card of expense C, 30 JPY
  with no converted cost, shows the category and the (empty) attachment list and no
  amount, while the cards of A and B show their converted amounts.
\<close>

theorem missing_rate_card_counterexample:
  "exp_cost raw_C = Some \<lparr>money_value = 30, money_currency = ''JPY''\<rparr>
   \<and> exp_convertedCost raw_C = None
   \<and> expenseCards ex_js None [ex_A, ex_B, raw_C]
       (sortedExpenses (\<lambda>a b. 0) (\<lambda>s. 0) None Asc [ex_A, ex_B, raw_C]) =
       [\<lparr>card_key = ''a'', card_title = ''A'',
         card_rows = [DateRow ''2024-05-02'',
                      CategoryRow (T ''expense_category_food'' ''Food'' []),
                      AmountRow 90 ''EUR'', AttachmentsRow []]\<rparr>,
        \<lparr>card_key = ''b'', card_title = ''B'',
         card_rows = [CategoryRow (T ''expense_category_lodging'' ''Lodging'' []),
                      AmountRow 50 ''EUR'', AttachmentsRow []]\<rparr>,
        \<lparr>card_key = ''c'', card_title = ''C'',
         card_rows = [CategoryRow (T ''expense_category_other'' ''Other'' []),
                      AttachmentsRow []]\<rparr>]"
  by (simp add: ex_A_def ex_B_def raw_A_def raw_B_def raw_C_def ex_js_def
      sortedExpenses_def js_sort_def compareExpenses_def expenseCards_def expenseCard_def
      expenseAttachmentsMap_def categoryOrOther_def)

section \<open>Claims about listing the expenses\<close>

lemma browserDated_cases:
  "browserDated conv entry =
     (case exp_occurredOn entry of
        None \<Rightarrow> entry
      | Some d \<Rightarrow> if d \<noteq> [] then entry\<lparr>exp_occurredOn := Some (conv d)\<rparr> else entry)"
  by (cases "exp_occurredOn entry") (simp_all add: browserDated_def)

lemma listExpenses_backend:
  "listExpenses (backendPage matching) conv tripId =
     Inr (map (browserDated conv)
            (take 200 (matching (''trip='' @ [CHR 0x22] @ tripId @ [CHR 0x22])
               ''-occurredOn,-created'')))"
  by (simp add: listExpenses_def backendPage_def listExpensesQuery_def)

text \<open>
  C9. \<open>listExpenses\<close> makes one request: page 1 with at most 200 records per
  page, filtered to the given trip and sorted by \<open>occurredOn\<close> descending, then by
  creation time descending; its result depends on the collection through that request
  alone. Against a backend that answers with the requested page of the matching
  records it returns the first 200 of them at most, so for a trip with more than 200
  expenses it returns exactly 200 and raises nothing. Each record is returned with a
  non-empty \<open>occurredOn\<close> converted to a browser-local date and otherwise unchanged.
\<close>

theorem listExpenses_first_page:
  "listExpensesQuery tripId =
     \<lparr>q_page = 1, q_perPage = 200,
      q_filter = ''trip='' @ [CHR 0x22] @ tripId @ [CHR 0x22],
      q_sort = ''-occurredOn,-created''\<rparr>
   \<and> (getList (listExpensesQuery tripId) = getList' (listExpensesQuery tripId) \<longrightarrow>
        listExpenses getList conv tripId = listExpenses getList' conv tripId)
   \<and> listExpenses (backendPage matching) conv tripId =
       Inr (map (browserDated conv)
              (take 200 (matching (''trip='' @ [CHR 0x22] @ tripId @ [CHR 0x22])
                 ''-occurredOn,-created'')))
   \<and> (200 < length (matching (''trip='' @ [CHR 0x22] @ tripId @ [CHR 0x22]) ''-occurredOn,-created'')
        \<longrightarrow> (\<exists>rs. listExpenses (backendPage matching) conv tripId = Inr rs \<and> length rs = 200))
   \<and> (exp_occurredOn entry = Some d \<and> d \<noteq> [] \<longrightarrow>
        browserDated conv entry = entry\<lparr>exp_occurredOn := Some (conv d)\<rparr>)
   \<and> (exp_occurredOn entry = None \<or> exp_occurredOn entry = Some [] \<longrightarrow>
        browserDated conv entry = entry)"
proof -
  let ?rows = "matching (''trip='' @ [CHR 0x22] @ tripId @ [CHR 0x22]) ''-occurredOn,-created''"
  have request: "listExpensesQuery tripId =
      \<lparr>q_page = 1, q_perPage = 200,
       q_filter = ''trip='' @ [CHR 0x22] @ tripId @ [CHR 0x22],
       q_sort = ''-occurredOn,-created''\<rparr>"
    by (simp add: listExpensesQuery_def)
  have only: "listExpenses getList conv tripId = listExpenses getList' conv tripId"
    if "getList (listExpensesQuery tripId) = getList' (listExpensesQuery tripId)"
    using that by (simp add: listExpenses_def)
  have page: "listExpenses (backendPage matching) conv tripId
      = Inr (map (browserDated conv) (take 200 ?rows))"
    by (rule listExpenses_backend)
  have truncated: "\<exists>rs. listExpenses (backendPage matching) conv tripId = Inr rs \<and> length rs = 200"
    if "200 < length ?rows"
    using that by (simp add: page)
  have converted: "browserDated conv entry = entry\<lparr>exp_occurredOn := Some (conv d)\<rparr>"
    if "exp_occurredOn entry = Some d \<and> d \<noteq> []"
    using that by (simp add: browserDated_cases)
  have unchanged: "browserDated conv entry = entry"
    if "exp_occurredOn entry = None \<or> exp_occurredOn entry = Some []"
    using that by (auto simp: browserDated_cases)
  from request only page truncated converted unchanged show ?thesis
    by blast
qed

theorem listExpenses_first_page_witness:
  "200 < length (replicate 201 raw_A)
   \<and> listExpenses (backendPage (\<lambda>f s. replicate 201 raw_A)) (\<lambda>d. d @ ''T00:00'') ''trip1''
       = Inr (replicate 200 (raw_A\<lparr>exp_occurredOn := Some ''2024-05-02T00:00''\<rparr>))
   \<and> exp_occurredOn raw_A = Some ''2024-05-02''
   \<and> browserDated (\<lambda>d. d @ ''T00:00'') raw_A = raw_A\<lparr>exp_occurredOn := Some ''2024-05-02T00:00''\<rparr>
   \<and> exp_occurredOn raw_B = None
   \<and> browserDated (\<lambda>d. d @ ''T00:00'') raw_B = raw_B"
  using listExpenses_first_page
      [where matching = "\<lambda>f s. replicate 201 raw_A" and conv = "\<lambda>d. d @ ''T00:00''"
         and tripId = "''trip1''" and entry = raw_A and d = "''2024-05-02''"
         and getList = "backendPage (\<lambda>f s. replicate 201 raw_A)"
         and getList' = "backendPage (\<lambda>f s. replicate 201 raw_A)"]
    listExpenses_first_page
      [where matching = "\<lambda>f s. replicate 201 raw_A" and conv = "\<lambda>d. d @ ''T00:00''"
         and tripId = "''trip1''" and entry = raw_B and d = "''2024-05-02''"
         and getList = "backendPage (\<lambda>f s. replicate 201 raw_A)"
         and getList' = "backendPage (\<lambda>f s. replicate 201 raw_A)"]
  by (simp add: raw_A_def raw_B_def)

section \<open>Claims about the flight form\<close>

text \<open>
  C10. The claim fails for a flight that is being edited. With the cost removed and
  a linked expense that is in the expense map, the linked expense is deleted, but the
  payload \<open>updateTransportation\<close> is called with has no \<open>expenseId\<close> key (the
  new value is assigned to the \<open>transportation\<close> object, not to the payload), so the
  saved transportation is not told to drop its reference. With a positive cost and no
  linked expense, an expense is created and the update payload does not carry its id
  either. For a new flight the same inputs put the id into the payload.
\<close>

theorem flight_edit_payload_without_expenseId:
  "fst (handleFormSubmit ex_js api_ok ex_trip (Some ex_flight) None (Some ex_expenseMap) []
          (ex_values\<lparr>v_cost := None\<rparr>)) =
     [UploadAttachments ''trip1'' [],
      DeleteExpense ''e1'',
      UpdateTransportation ''t1''
        (transportationPayload ex_js ex_trip (ex_values\<lparr>v_cost := None\<rparr>)
           (Airport ''SFO'' (JObj [(''iataCode'', JStr ''SFO'')])) (PlaceText ''Tokyo'')),
      OnSuccess]
   \<and> snd (handleFormSubmit ex_js api_ok ex_trip (Some ex_flight) None (Some ex_expenseMap) []
          (ex_values\<lparr>v_cost := None\<rparr>)) = Some (ex_flight\<lparr>tr_expenseId := None\<rparr>)
   \<and> map fst (transportationPayload ex_js ex_trip (ex_values\<lparr>v_cost := None\<rparr>)
          (Airport ''SFO'' (JObj [(''iataCode'', JStr ''SFO'')])) (PlaceText ''Tokyo''))
       = [''type'', ''origin'', ''destination'', ''cost'', ''departureTime'', ''arrivalTime'',
          ''trip'', ''metadata'']
   \<and> fst (handleFormSubmit ex_js api_ok ex_trip (Some (ex_flight\<lparr>tr_expenseId := None\<rparr>)) None
          (Some ex_expenseMap) [] ex_values) =
       [UploadAttachments ''trip1'' [],
        CreateExpense (expenseData ex_js ex_trip ex_values
          (Airport ''SFO'' (JObj [(''iataCode'', JStr ''SFO'')])) (PlaceText ''Tokyo'') 420),
        UpdateTransportation ''t1''
          (transportationPayload ex_js ex_trip ex_values
             (Airport ''SFO'' (JObj [(''iataCode'', JStr ''SFO'')])) (PlaceText ''Tokyo'')),
        OnSuccess]
   \<and> map fst (transportationPayload ex_js ex_trip ex_values
          (Airport ''SFO'' (JObj [(''iataCode'', JStr ''SFO'')])) (PlaceText ''Tokyo''))
       = [''type'', ''origin'', ''destination'', ''cost'', ''departureTime'', ''arrivalTime'',
          ''trip'', ''metadata'']
   \<and> fst (handleFormSubmit ex_js api_ok ex_trip None None (Some ex_expenseMap) [] ex_values) =
       [UploadAttachments ''trip1'' [],
        CreateExpense (expenseData ex_js ex_trip ex_values
          (Airport ''SFO'' (JObj [(''iataCode'', JStr ''SFO'')])) (PlaceText ''Tokyo'') 420),
        CreateTransportationEntry
          (transportationPayload ex_js ex_trip ex_values
             (Airport ''SFO'' (JObj [(''iataCode'', JStr ''SFO'')])) (PlaceText ''Tokyo'')
           @ [(''attachmentReferences'', JArr []), (''expenseId'', JStr ''a'')]),
        OnSuccess]"
  by (simp add: handleFormSubmit_def syncExpense_def linkedExpenseId_def positiveCost_def
      saveTransportation_def transportationPayload_def api_ok_def ex_values_def ex_trip_def
      ex_flight_def ex_expenseMap_def raw_A_def Let_def)

end
